theory Spec2Isabelle
  imports Complex_Main "HOL-Library.AList" "HOL-Library.Log_Nat"
    "HOL-Library.Char_ord" "HOL-Library.List_Lexorder"
begin

section \<open>Python values\<close>

text \<open>
  The service passes untyped JSON-like dictionaries around. A value decoded from a model
  response, a payload kept in the cache and every structure returned to the HTTP layer
  is a \<open>json\<close> value. A Python \<open>str\<close> is a \<open>string\<close>, one character per code point
  (code points below 256). A Python \<open>dict\<close> is an association list in insertion order;
  a lookup takes the first pair with the key, and \<open>AList.update\<close> is the assignment
  \<open>d[k] = v\<close> (in place when the key exists, appended otherwise).

  A Python \<open>float\<close> is given by its exact value: every finite double is a rational.
\<close>

datatype pyfloat = Fin rat | PosInf | NegInf | NaN

datatype json =
    JNull
  | JBool bool
  | JInt int
  | JFloat pyfloat
  | JStr string
  | JArr "json list"
  | JObj "(string \<times> json) list"

datatype py_error = KeyError | TypeError | AttributeError | ValueError | OverflowError

type_synonym 'a result = "py_error + 'a"

definition bind_r :: "'a result \<Rightarrow> ('a \<Rightarrow> 'b result) \<Rightarrow> 'b result" where
  "bind_r m f = (case m of Inl e \<Rightarrow> Inl e | Inr x \<Rightarrow> f x)"

fun map_r :: "('a \<Rightarrow> 'b result) \<Rightarrow> 'a list \<Rightarrow> 'b list result" where
  "map_r f [] = Inr []"
| "map_r f (x # xs) = bind_r (f x) (\<lambda>y. bind_r (map_r f xs) (\<lambda>ys. Inr (y # ys)))"

subsection \<open>Characters and strings\<close>

definition py_isspace :: "char \<Rightarrow> bool" where
  \<comment> \<open>\<open>str.isspace\<close> and the regular expression class \<open>\s\<close>, on code points below 256\<close>
  "py_isspace c = (let n = (of_char c :: nat)
     in (9 \<le> n \<and> n \<le> 13) \<or> (28 \<le> n \<and> n \<le> 32) \<or> n = 133 \<or> n = 160)"

definition py_strip :: "string \<Rightarrow> string" where
  "py_strip s = rev (dropWhile py_isspace (rev (dropWhile py_isspace s)))"

definition lower_ascii :: "char \<Rightarrow> char" where
  "lower_ascii c = (let n = (of_char c :: nat)
     in if 65 \<le> n \<and> n \<le> 90 then char_of (n + 32) else c)"

definition digit_char :: "nat \<Rightarrow> char" where
  "digit_char d = char_of (48 + d)"

fun show_nat :: "nat \<Rightarrow> string" where
  "show_nat n = (if n < 10 then [digit_char n] else show_nat (n div 10) @ [digit_char (n mod 10)])"

declare show_nat.simps [simp del]

definition show_int :: "int \<Rightarrow> string" where
  \<comment> \<open>\<open>str(i)\<close> for a Python integer\<close>
  "show_int i = (if i < 0 then CHR ''-'' # show_nat (nat (- i)) else show_nat (nat i))"

fun join :: "string \<Rightarrow> string list \<Rightarrow> string" where
  "join sep [] = []"
| "join sep [x] = x"
| "join sep (x # y # ys) = x @ sep @ join sep (y # ys)"

subsection \<open>Builtins on values\<close>

fun py_truthy :: "json \<Rightarrow> bool" where
  "py_truthy JNull = False"
| "py_truthy (JBool b) = b"
| "py_truthy (JInt i) = (i \<noteq> 0)"
| "py_truthy (JFloat f) = (f \<noteq> Fin 0)"
| "py_truthy (JStr s) = (s \<noteq> [])"
| "py_truthy (JArr xs) = (xs \<noteq> [])"
| "py_truthy (JObj kvs) = (kvs \<noteq> [])"

fun py_str :: "(json \<Rightarrow> string) \<Rightarrow> json \<Rightarrow> string" where
  \<comment> \<open>\<open>str(v)\<close>; the text of a float, a list or a dict is left to the parameter\<close>
  "py_str other (JStr s) = s"
| "py_str other JNull = ''None''"
| "py_str other (JBool b) = (if b then ''True'' else ''False'')"
| "py_str other (JInt i) = show_int i"
| "py_str other v = other v"

fun is_dict :: "json \<Rightarrow> bool" where
  "is_dict (JObj kvs) = True"
| "is_dict v = False"

fun py_get :: "json \<Rightarrow> string \<Rightarrow> json \<Rightarrow> json result" where
  \<comment> \<open>\<open>v.get(k, default)\<close>: only a dict has the method\<close>
  "py_get (JObj kvs) k d = Inr (case map_of kvs k of None \<Rightarrow> d | Some v \<Rightarrow> v)"
| "py_get v k d = Inl AttributeError"

fun py_iter :: "json \<Rightarrow> json list result" where
  \<comment> \<open>the elements a \<open>for\<close> loop sees: a list's items, a string's characters, a dict's keys\<close>
  "py_iter (JArr xs) = Inr xs"
| "py_iter (JStr s) = Inr (map (\<lambda>c. JStr [c]) s)"
| "py_iter (JObj kvs) = Inr (map (\<lambda>k. JStr k) (map fst kvs))"
| "py_iter v = Inl TypeError"

fun py_slice :: "nat \<Rightarrow> json \<Rightarrow> json result" where
  \<comment> \<open>\<open>v[:n]\<close>\<close>
  "py_slice n (JArr xs) = Inr (JArr (take n xs))"
| "py_slice n (JStr s) = Inr (JStr (take n s))"
| "py_slice n v = Inl TypeError"

definition py_trunc :: "rat \<Rightarrow> int" where
  \<comment> \<open>\<open>int(x)\<close> for a finite float: towards zero\<close>
  "py_trunc x = (if 0 \<le> x then \<lfloor>x\<rfloor> else \<lceil>x\<rceil>)"

section \<open>Model gateway (llm_client)\<close>

text \<open>
  Everything outside the process is a parameter: which credentials the environment
  holds, what the provider answers to the n-th request, what the n-th reading of the
  clock is, and the library functions \<open>json.loads\<close>, \<open>hashlib.sha256\<close>, the text of
  floats and containers, the iteration order of a \<open>set\<close> built from the given elements,
  \<open>float\<close> of a string (\<open>None\<close> when it raises) and the value of the environment
  variable \<open>GROUPING_CACHE_TTL\<close> when it is set. A text that starts with an opening brace
  decodes to a dict or not at all, so \<open>json_loads\<close> gives the dict's items.
\<close>

datatype provider = Groq | Gemini

datatype outcome = Raises string | Returns string

record request =
  rq_prompt :: string
  rq_system :: string
  rq_temperature :: rat
  rq_max_output_tokens :: nat

record world =
  groq_key :: bool
  gemini_key :: bool
  genai_ok :: bool
  reply :: "nat \<Rightarrow> request \<Rightarrow> outcome"
  clock :: "nat \<Rightarrow> rat"
  json_loads :: "string \<Rightarrow> (string \<times> json) list option"
  sha256_hex :: "string \<Rightarrow> string"
  repr_other :: "json \<Rightarrow> string"
  set_order :: "string list \<Rightarrow> string list"
  float_of_str :: "string \<Rightarrow> pyfloat option"
  ttl_env :: "int option"

text \<open>
  The module globals: \<open>_PROVIDER\<close>, \<open>_LLM_AVAILABLE\<close>, \<open>_METRICS\<close> and the grouping
  engine's \<open>_CACHE\<close> (a cache entry is the payload and the time it was stored). The
  state also counts the clock readings taken and logs every \<open>time.sleep\<close>.
\<close>

record state =
  st_provider :: "provider option"
  llm_avail :: bool
  m_requests :: nat
  m_errors :: nat
  m_last_latency_ms :: "int option"
  cache :: "string \<Rightarrow> (json \<times> rat) option"
  ticks :: nat
  sleeps :: "rat list"

definition initial_state :: state where
  "initial_state = \<lparr>st_provider = None, llm_avail = False, m_requests = 0, m_errors = 0,
     m_last_latency_ms = None, cache = (\<lambda>k. None), ticks = 0, sleeps = []\<rparr>"

record gen_result =
  g_success :: bool
  g_data :: json
  g_raw :: string
  g_error :: "string option"
  g_llm_enabled :: bool

definition time_now :: "world \<Rightarrow> state \<Rightarrow> rat \<times> state" where
  "time_now w s = (clock w (ticks s), s\<lparr>ticks := Suc (ticks s)\<rparr>)"

definition time_sleep :: "rat \<Rightarrow> state \<Rightarrow> state" where
  "time_sleep d s = s\<lparr>sleeps := sleeps s @ [d]\<rparr>"

definition init_client :: "world \<Rightarrow> state \<Rightarrow> state" where
  "init_client w s =
     (if st_provider s \<noteq> None then s
      else if groq_key w then s\<lparr>st_provider := Some Groq, llm_avail := True\<rparr>
      else if gemini_key w \<and> genai_ok w then s\<lparr>st_provider := Some Gemini, llm_avail := True\<rparr>
      else s\<lparr>st_provider := None, llm_avail := False\<rparr>)"

definition llm_available :: "world \<Rightarrow> state \<Rightarrow> bool \<times> state" where
  "llm_available w s = (let s' = init_client w s in (llm_avail s', s'))"

subsection \<open>Extracting the JSON block\<close>

definition fence :: string where
  "fence = replicate 3 (char_of (96 :: nat))"

definition starts_with :: "string \<Rightarrow> string \<Rightarrow> bool" where
  "starts_with p s = (take (length p) s = p)"

definition ends_with :: "string \<Rightarrow> string \<Rightarrow> bool" where
  "ends_with p s = starts_with (rev p) (rev s)"

fun lazy_body :: "string \<Rightarrow> string option" where
  \<comment> \<open>the shortest text up to a closing brace that white space and a fence follow\<close>
  "lazy_body [] = None"
| "lazy_body (c # cs) =
     (if c = CHR ''}'' \<and> starts_with fence (dropWhile py_isspace cs) then Some [c]
      else map_option (Cons c) (lazy_body cs))"

definition match_here :: "string \<Rightarrow> string option" where
  \<comment> \<open>\<open>JSON_BLOCK_REGEX\<close> matched at the start of the text: its group 1\<close>
  "match_here s =
     (if starts_with fence s then
        (let r1 = drop 3 s;
             r2 = (if map lower_ascii (take 4 r1) = ''json'' then drop 4 r1 else r1)
         in case dropWhile py_isspace r2 of
              [] \<Rightarrow> None
            | c # body \<Rightarrow> if c = CHR ''{'' then map_option (Cons c) (lazy_body body) else None)
      else None)"

fun regex_search :: "string \<Rightarrow> string option" where
  "regex_search [] = None"
| "regex_search (c # cs) =
     (case match_here (c # cs) of Some g \<Rightarrow> Some g | None \<Rightarrow> regex_search cs)"

definition extract_json :: "world \<Rightarrow> string \<Rightarrow> json option" where
  "extract_json w txt =
     (let candidate =
        (case regex_search txt of
           Some g \<Rightarrow> Some g
         | None \<Rightarrow>
            (let stripped = py_strip txt
             in if starts_with ''{'' stripped \<and> ends_with ''}'' stripped then Some stripped
                else None))
      in case candidate of
           None \<Rightarrow> None
         | Some c \<Rightarrow> if c = [] then None else map_option JObj (json_loads w c))"

subsection \<open>generate_structured\<close>

definition disabled_result :: gen_result where
  "disabled_result = \<lparr>g_success = False, g_data = JObj [], g_raw = [],
     g_error = Some ''LLM disabled (no API_GROQ or GEMINI_API_KEY)'', g_llm_enabled = False\<rparr>"

definition failure_result :: "string option \<Rightarrow> gen_result" where
  \<comment> \<open>\<open>last_error or "unknown"\<close>\<close>
  "failure_result last_error = \<lparr>g_success = False, g_data = JObj [], g_raw = [],
     g_error = Some (case last_error of None \<Rightarrow> ''unknown''
                     | Some e \<Rightarrow> if e = [] then ''unknown'' else e),
     g_llm_enabled = True\<rparr>"

function attempt_loop ::
  "world \<Rightarrow> request \<Rightarrow> int \<Rightarrow> int \<Rightarrow> string option \<Rightarrow> state \<Rightarrow> gen_result \<times> state" where
  "attempt_loop w rq max_retries attempt last_error s =
     (if attempt \<le> max_retries then
        (let (start, s1) = time_now w s;
             s2 = s1\<lparr>m_requests := m_requests s1 + 1\<rparr>
         in case reply w (m_requests s1) rq of
              Raises msg \<Rightarrow>
                attempt_loop w rq max_retries (attempt + 1) (Some msg)
                  (time_sleep (of_int (attempt + 1) / 2) (s2\<lparr>m_errors := m_errors s2 + 1\<rparr>))
            | Returns raw_text \<Rightarrow>
                (let (fin, s3) = time_now w s2;
                     s4 = s3\<lparr>m_last_latency_ms := Some (py_trunc ((fin - start) * 1000))\<rparr>
                 in case extract_json w raw_text of
                      Some d \<Rightarrow>
                        (\<lparr>g_success = True, g_data = d, g_raw = raw_text, g_error = None,
                          g_llm_enabled = True\<rparr>, s4)
                    | None \<Rightarrow>
                        attempt_loop w rq max_retries (attempt + 1)
                          (Some ''JSON not found / invalid'')
                          (time_sleep (of_int (attempt + 1) / 2) s4)))
      else (failure_result last_error, s))"
  by pat_completeness auto
termination
  by (relation "measure (\<lambda>(w, rq, max_retries, attempt, last_error, s). nat (max_retries + 1 - attempt))") auto

declare attempt_loop.simps [simp del]

definition generate_structured ::
  "world \<Rightarrow> request \<Rightarrow> int \<Rightarrow> state \<Rightarrow> gen_result \<times> state" where
  "generate_structured w rq max_retries s =
     (let s0 = init_client w s
      in if \<not> llm_avail s0 \<or> st_provider s0 = None then (disabled_result, s0)
         else attempt_loop w rq max_retries 0 None s0)"
section \<open>Double-precision arithmetic\<close>

text \<open>
  Python floats are IEEE 754 doubles. A finite double is the rational it denotes, and
  an operation gives the exact result rounded to the nearest double, ties to the even
  significand (53 bits). The exponent is not bounded here: the callers below test for
  the overflow that Python reports, and no value they compute is small enough to be
  subnormal.
\<close>

definition round_half_even :: "rat \<Rightarrow> int" where
  \<comment> \<open>\<open>round(x)\<close> on the exact value of a float\<close>
  "round_half_even x =
     (let f = \<lfloor>x\<rfloor>; d = x - of_int f
      in if d < 1 / 2 then f else if 1 / 2 < d then f + 1 else if even f then f else f + 1)"

definition pow2 :: "int \<Rightarrow> rat" where
  "pow2 e = (if 0 \<le> e then 2 ^ nat e else 1 / 2 ^ nat (- e))"

definition ilog2 :: "rat \<Rightarrow> int" where
  \<comment> \<open>the exponent \<open>e\<close> with \<open>2^e \<le> x < 2^(e+1)\<close>, for positive \<open>x\<close>\<close>
  "ilog2 x = (let (a, b) = quotient_of x; l = bitlen a - bitlen b
              in if pow2 l \<le> x then l else l - 1)"

definition round_double :: "rat \<Rightarrow> rat" where
  "round_double x =
     (if x = 0 then 0
      else (let u = pow2 (ilog2 \<bar>x\<bar> - 52) in of_int (round_half_even (x / u)) * u))"

definition double_overflows :: "rat \<Rightarrow> bool" where
  \<comment> \<open>the rounded value is beyond the largest finite double\<close>
  "double_overflows x = (2 ^ 1024 \<le> \<bar>round_double x\<bar>)"

definition float_of_int :: "int \<Rightarrow> pyfloat result" where
  \<comment> \<open>\<open>float(i)\<close>: too large an integer raises\<close>
  "float_of_int i = (if double_overflows (of_int i) then Inl OverflowError
                     else Inr (Fin (round_double (of_int i))))"

fun float_add :: "pyfloat \<Rightarrow> pyfloat \<Rightarrow> pyfloat" where
  "float_add (Fin x) (Fin y) =
     (if double_overflows (x + y) then (if 0 < x + y then PosInf else NegInf)
      else Fin (round_double (x + y)))"
| "float_add NaN y = NaN"
| "float_add x NaN = NaN"
| "float_add PosInf NegInf = NaN"
| "float_add NegInf PosInf = NaN"
| "float_add PosInf y = PosInf"
| "float_add NegInf y = NegInf"
| "float_add x PosInf = PosInf"
| "float_add x NegInf = NegInf"

fun float_div_nat :: "pyfloat \<Rightarrow> nat \<Rightarrow> pyfloat" where
  \<comment> \<open>\<open>x / n\<close> for a positive count \<open>n\<close>\<close>
  "float_div_nat (Fin x) n = Fin (round_double (x / round_double (of_nat n)))"
| "float_div_nat x n = x"

fun float_round2 :: "pyfloat \<Rightarrow> pyfloat" where
  \<comment> \<open>\<open>round(x, 2)\<close>: the nearest number with two decimals, as a double\<close>
  "float_round2 (Fin x) = Fin (round_double (of_int (round_half_even (x * 100)) / 100))"
| "float_round2 x = x"

section \<open>Pedagogical analysis (analysis_engine)\<close>

definition ANALYSIS_SYSTEM :: string where
  "ANALYSIS_SYSTEM = concat [''You are a pedagogical assistant. Generate strict JSON describing stude'',
      ''nt difficulties. Do not invent non-existent content beyond the provide'',
      ''d text and subject context.'']"

definition ANALYSIS_SCHEMA_INSTRUCTIONS :: string where
  "ANALYSIS_SCHEMA_INSTRUCTIONS = concat [''Return ONLY a markdown block with valid JSON containing keys: mainErro'',
      ''r (string), errorPercentage (0-100 int), concepts (list of up to 8 str'',
      ''ings), suggestions (list of up to 8 strings), reasoning (short string)'',
      ''. Do not include explanations outside the JSON block.'']"

definition legacy_system :: string where
  "legacy_system = concat [''You are a specialized pedagogical assistant. Analyze the student'', [char_of (39::nat)],
      ''s text and return ONLY a JSON with these specific keys: mainConcept (m'',
      ''ain concept being studied), specificError (specific error identified i'',
      ''n the text), isRecurrent (boolean - if it'', [char_of (39::nat)],
      ''s a common/recurrent error in this type of exercise), historicalAnalys'',
      ''is (detailed analysis of patterns and historical context of student er'',
      ''rors), suggestionForTeacher (specific and practical suggestion for the'',
      '' teacher), generatedMicroExercise (list of 2-3 micro-exercises in obje'',
      ''ct format with '', [char_of (39::nat)], ''sentence'', [char_of (39::nat)], '' and '',
      [char_of (39::nat)], ''answer'', [char_of (39::nat)],
      ''). Be detailed in historicalAnalysis and specific in suggestions. Do n'',
      ''ot add text outside the JSON.'']"

subsection \<open>fallback_analysis\<close>

fun count_words :: "bool \<Rightarrow> string \<Rightarrow> nat" where
  \<comment> \<open>\<open>len(text.split())\<close>; the flag tells that the previous character was part of a word\<close>
  "count_words inw [] = 0"
| "count_words inw (c # cs) =
     (if py_isspace c then count_words False cs
      else (if inw then 0 else 1) + count_words True cs)"

text \<open>
  \<open>int(math.log2(m) * 12)\<close> is the largest \<open>j\<close> with \<open>2^j \<le> m^12\<close>. The argument \<open>m\<close>
  lies between 11 and 101, where the double product is never within rounding distance
  of an integer it does not reach.
\<close>

definition log2_times_12 :: "nat \<Rightarrow> int" where
  "log2_times_12 m = bitlen (int m ^ 12) - 1"

definition fallback_analysis :: "string \<Rightarrow> string \<Rightarrow> json" where
  "fallback_analysis detected_text subject =
     (let length_factor = min 100 (max 10 (count_words False detected_text));
          error_percentage = min 85 (max 15 (log2_times_12 (length_factor + 1)))
      in JObj [
        (''mainError'', JStr ''Pending advanced analysis (LLM disabled)''),
        (''errorPercentage'', JInt error_percentage),
        (''concepts'', JArr [JStr (if take 40 subject = [] then ''General'' else take 40 subject)]),
        (''suggestions'', JArr [JStr ''Enable GEMINI_API_KEY to obtain richer insights'']),
        (''reasoning'', JStr ''Fallback heuristic''),
        (''ai_analysis'', JNull)])"

subsection \<open>detect_total_exercises\<close>

text \<open>
  The regular expressions of the source, matched by hand. \<open>\d\<close> is an ASCII digit and
  \<open>\w\<close> a letter, a digit or the underscore of the code points below 256; \<open>\b\<close> stands
  between a \<open>\w\<close> character and one that is not (or an end of the text).
\<close>

definition py_isdigit :: "char \<Rightarrow> bool" where
  "py_isdigit c = (let n = (of_char c :: nat) in 48 \<le> n \<and> n \<le> 57)"

definition py_isword :: "char \<Rightarrow> bool" where
  "py_isword c = (let n = (of_char c :: nat)
     in (48 \<le> n \<and> n \<le> 57) \<or>
        (65 \<le> n \<and> n \<le> 90) \<or>
        n = 95 \<or>
        (97 \<le> n \<and> n \<le> 122) \<or>
        n = 170 \<or>
        (178 \<le> n \<and> n \<le> 179) \<or>
        n = 181 \<or>
        (185 \<le> n \<and> n \<le> 186) \<or>
        (188 \<le> n \<and> n \<le> 190) \<or>
        (192 \<le> n \<and> n \<le> 214) \<or>
        (216 \<le> n \<and> n \<le> 246) \<or>
        (248 \<le> n \<and> n \<le> 255))"

definition is_linebreak :: "char \<Rightarrow> bool" where
  \<comment> \<open>the line boundaries of \<open>str.splitlines\<close>\<close>
  "is_linebreak c = (let n = (of_char c :: nat)
     in (10 \<le> n \<and> n \<le> 13) \<or> (28 \<le> n \<and> n \<le> 30) \<or> n = 133)"

fun splitlines :: "string \<Rightarrow> string \<Rightarrow> string list" where
  \<comment> \<open>the first argument is the current line, reversed\<close>
  "splitlines cur [] = (if cur = [] then [] else [rev cur])"
| "splitlines cur (c # cs) =
     (if c = CHR 0x0D \<and> cs \<noteq> [] \<and> hd cs = CHR 0x0A then rev cur # splitlines [] (tl cs)
      else if is_linebreak c then rev cur # splitlines [] cs
      else splitlines (c # cur) cs)"

definition numbered_line :: "string \<Rightarrow> bool" where
  \<comment> \<open>\<open>re.match(r"^\s*\d+\s*[\.|\)]", L)\<close>\<close>
  "numbered_line L =
     (let r = dropWhile py_isspace L;
          r2 = dropWhile py_isdigit r;
          r3 = dropWhile py_isspace r2
      in r2 \<noteq> r \<and> r3 \<noteq> [] \<and> hd r3 \<in> set ''.|)'')"

definition lower_latin :: "char \<Rightarrow> char" where
  \<comment> \<open>the case folding that \<open>re.I\<close> needs for the letters of the pattern\<close>
  "lower_latin c = (let n = (of_char c :: nat)
     in if (65 \<le> n \<and> n \<le> 90) \<or> n = 195 \<or> n = 213 then char_of (n + 32) else c)"

definition question_words :: "string list" where
  "question_words = [''question'', ''quest'' @ [char_of (227 :: nat)] @ ''o'', ''questoes'',
     ''quest'' @ [char_of (245 :: nat)] @ ''es'', ''q'']"

fun match_alt :: "string list \<Rightarrow> string \<Rightarrow> nat option" where
  \<comment> \<open>the first alternative that matches the start of the text with \<open>\b\<close> after it; the
      result is the number of characters matched after the first one\<close>
  "match_alt [] s = None"
| "match_alt (a # alts) s =
     (if map lower_latin (take (length a) s) = a \<and>
         (drop (length a) s = [] \<or> \<not> py_isword (hd (drop (length a) s)))
      then Some (length a - 1) else match_alt alts s)"

fun count_question_words :: "bool \<Rightarrow> string \<Rightarrow> nat" where
  \<comment> \<open>\<open>len(re.findall(r"\b(?:question|...|q)\b", text, flags=re.I))\<close>; the flag tells that
      the previous character is a \<open>\w\<close> character\<close>
  "count_question_words prev [] = 0"
| "count_question_words prev (c # cs) =
     (case (if prev then None else match_alt question_words (c # cs)) of
        Some k \<Rightarrow> Suc (count_question_words True (drop k cs))
      | None \<Rightarrow> count_question_words (py_isword c) cs)"

definition match_paren :: "string \<Rightarrow> nat option" where
  \<comment> \<open>\<open>\d+\)\<close> at the start of the text: the number of digits\<close>
  "match_paren s =
     (let r = dropWhile py_isdigit s
      in if r \<noteq> s \<and> r \<noteq> [] \<and> hd r = CHR '')'' then Some (length (takeWhile py_isdigit s))
         else None)"

fun count_paren_nums :: "bool \<Rightarrow> string \<Rightarrow> nat" where
  \<comment> \<open>\<open>len(re.findall(r"\b\d+\)", text))\<close>\<close>
  "count_paren_nums prev [] = 0"
| "count_paren_nums prev (c # cs) =
     (case (if prev then None else match_paren (c # cs)) of
        Some k \<Rightarrow> Suc (count_paren_nums False (drop k cs))
      | None \<Rightarrow> count_paren_nums (py_isword c) cs)"

definition blank_gap :: "string \<Rightarrow> nat option" where
  \<comment> \<open>after a newline: how far \<open>\s*\n\<close> reaches (to the last newline of the white space)\<close>
  "blank_gap s =
     (let k = length (dropWhile (\<lambda>c. c \<noteq> CHR 0x0A) (rev (takeWhile py_isspace s)))
      in if k = 0 then None else Some k)"

fun split_paragraphs :: "string \<Rightarrow> string \<Rightarrow> string list" where
  \<comment> \<open>\<open>re.split(r"\n\s*\n", text)\<close>; the first argument is the current piece, reversed\<close>
  "split_paragraphs cur [] = [rev cur]"
| "split_paragraphs cur (c # cs) =
     (case (if c = CHR 0x0A then blank_gap cs else None) of
        Some k \<Rightarrow> rev cur # split_paragraphs [] (drop k cs)
      | None \<Rightarrow> split_paragraphs (c # cur) cs)"

definition detect_total_exercises :: "string \<Rightarrow> nat" where
  "detect_total_exercises detected_text =
     (if detected_text = [] \<or> py_strip detected_text = [] then 1
      else
        (let numbered = length (filter numbered_line (splitlines [] detected_text))
         in if 2 \<le> numbered then numbered
         else
        (let qmatches = count_question_words False detected_text
         in if 2 \<le> qmatches then qmatches
         else
        (let paren_nums = count_paren_nums False detected_text
         in if 2 \<le> paren_nums then paren_nums
         else
        (let qm = length (filter (\<lambda>c. c = CHR ''?'') detected_text)
         in if 2 \<le> qm then qm
         else
        (let paragraphs = filter (\<lambda>p. 30 < length (py_strip p)) (split_paragraphs [] detected_text)
         in if 2 \<le> length paragraphs then length paragraphs
         else 1))))))"

subsection \<open>Normalising the model's answer\<close>

fun digits_ok :: "bool \<Rightarrow> string \<Rightarrow> bool" where
  \<comment> \<open>decimal digits, single underscores only between two digits\<close>
  "digits_ok prev [] = prev"
| "digits_ok prev (c # cs) =
     (if py_isdigit c then digits_ok True cs
      else if c = CHR ''_'' then prev \<and> digits_ok False cs
      else False)"

definition digits_value :: "string \<Rightarrow> int" where
  "digits_value s = foldl (\<lambda>acc c. acc * 10 + (int (of_char c) - 48)) 0 (filter py_isdigit s)"

definition int_isspace :: "char \<Rightarrow> bool" where
  \<comment> \<open>the white space \<open>int\<close> skips around a literal: not the separators 28 to 31\<close>
  "int_isspace c = (let n = (of_char c :: nat)
     in (9 \<le> n \<and> n \<le> 13) \<or> n = 32 \<or> n = 133 \<or> n = 160)"

definition parse_int :: "string \<Rightarrow> int option" where
  \<comment> \<open>\<open>int(s)\<close> for a string; \<open>None\<close> when it raises \<open>ValueError\<close>\<close>
  "parse_int s =
     (let t = rev (dropWhile int_isspace (rev (dropWhile int_isspace s)));
          neg = (t \<noteq> [] \<and> hd t = CHR ''-'');
          body = (if t \<noteq> [] \<and> (hd t = CHR ''-'' \<or> hd t = CHR ''+'') then tl t else t)
      in if digits_ok False body then Some ((if neg then - 1 else 1) * digits_value body)
         else None)"

fun py_int :: "json \<Rightarrow> int result" where
  \<comment> \<open>\<open>int(v)\<close>\<close>
  "py_int (JInt i) = Inr i"
| "py_int (JBool b) = Inr (if b then 1 else 0)"
| "py_int (JFloat (Fin x)) = Inr (py_trunc x)"
| "py_int (JFloat NaN) = Inl ValueError"
| "py_int (JFloat f) = Inl OverflowError"
| "py_int (JStr s) = (case parse_int s of Some i \<Rightarrow> Inr i | None \<Rightarrow> Inl ValueError)"
| "py_int v = Inl TypeError"

definition clamp_error_pct :: "json \<Rightarrow> int" where
  "clamp_error_pct v =
     (let error_pct = (case py_int v of Inr i \<Rightarrow> i | Inl e \<Rightarrow> 50)
      in max 0 (min 100 error_pct))"

definition bounded_strings :: "world \<Rightarrow> nat \<Rightarrow> nat \<Rightarrow> json \<Rightarrow> json list result" where
  \<comment> \<open>\<open>[str(c)[:width] for c in v][:count]\<close>\<close>
  "bounded_strings w width count v =
     bind_r (py_iter v) (\<lambda>xs. Inr (take count (map (\<lambda>c. JStr (take width (py_str (repr_other w) c))) xs)))"

record primary_fields =
  pf_main_error :: string
  pf_error_pct :: int
  pf_concepts :: "json list"
  pf_suggestions :: "json list"
  pf_reasoning :: string

definition normalize_primary :: "world \<Rightarrow> json \<Rightarrow> primary_fields result" where
  "normalize_primary w data =
     bind_r (py_get data ''mainError'' (JStr ''Unspecified'')) (\<lambda>me.
     bind_r (py_get data ''errorPercentage'' (JInt 50)) (\<lambda>ep.
     bind_r (py_get data ''concepts'' (JArr [])) (\<lambda>cs.
     bind_r (bounded_strings w 80 8 cs) (\<lambda>concepts.
     bind_r (py_get data ''suggestions'' (JArr [])) (\<lambda>ss.
     bind_r (bounded_strings w 120 8 ss) (\<lambda>suggestions.
     bind_r (py_get data ''reasoning'' (JStr [])) (\<lambda>rs.
       Inr \<lparr>pf_main_error = take 200 (py_str (repr_other w) me),
            pf_error_pct = clamp_error_pct ep,
            pf_concepts = concepts,
            pf_suggestions = suggestions,
            pf_reasoning = take 500 (py_str (repr_other w) rs)\<rparr>)))))))"

subsection \<open>Score, feedback and the result\<close>

definition score_correct :: "nat \<Rightarrow> int \<Rightarrow> int" where
  \<comment> \<open>\<open>max(0, min(total_ex, int(round((100 - error_pct) / 100.0 * total_ex))))\<close>\<close>
  "score_correct total_ex error_pct =
     max 0 (min (int total_ex)
       (round_half_even
          (round_double (round_double (round_double (of_int (100 - error_pct)) / 100)
             * round_double (of_nat total_ex)))))"

definition score_of :: "nat \<Rightarrow> int \<Rightarrow> json" where
  "score_of total_ex error_pct =
     (let correct = score_correct total_ex error_pct
      in JObj [(''correct'', JInt correct), (''total'', JInt (int total_ex)),
               (''label'', JStr (show_int correct @ ''/'' @ show_nat total_ex))])"

definition is_str :: "json \<Rightarrow> bool" where
  "is_str v = (case v of JStr s \<Rightarrow> True | _ \<Rightarrow> False)"

definition micro_sentence :: "json \<Rightarrow> json option \<Rightarrow> json" where
  \<comment> \<open>\<open>micro_sent\<close>; \<open>JNull\<close> is Python's \<open>None\<close>, also where the \<open>try\<close> block catches\<close>
  "micro_sentence data ai_structured =
     (case py_get data ''generatedMicroExercise'' JNull of
        Inl e \<Rightarrow> JNull
      | Inr own \<Rightarrow>
         (case (if py_truthy own then Inr own
                else (case ai_structured of
                        None \<Rightarrow> Inl AttributeError
                      | Some a \<Rightarrow> py_get a ''generatedMicroExercise'' JNull)) of
            Inl e \<Rightarrow> JNull
          | Inr gen_ex \<Rightarrow>
             (case gen_ex of
                JArr (first # others) \<Rightarrow>
                  (let micro_sent =
                     (case first of
                        JObj kvs \<Rightarrow>
                          (let sentence = (case map_of kvs ''sentence'' of None \<Rightarrow> JNull | Some v \<Rightarrow> v)
                           in if py_truthy sentence then sentence
                              else (case map_of kvs ''prompt'' of None \<Rightarrow> JNull | Some v \<Rightarrow> v))
                      | _ \<Rightarrow> JNull)
                   in if \<not> py_truthy micro_sent \<and> is_str first then first else micro_sent)
              | _ \<Rightarrow> JNull)))"

definition guidance_of :: "json list \<Rightarrow> string \<Rightarrow> string option" where
  "guidance_of suggestions reasoning =
     (case suggestions of
        g # others \<Rightarrow> Some (case g of JStr t \<Rightarrow> t | _ \<Rightarrow> [])
      | [] \<Rightarrow> if reasoning \<noteq> [] then Some (take 150 (takeWhile (\<lambda>c. c \<noteq> CHR 0x0A) reasoning))
              else None)"

definition or_default :: "string option \<Rightarrow> string \<Rightarrow> string" where
  \<comment> \<open>\<open>guidance or default\<close>\<close>
  "or_default g d = (case g of None \<Rightarrow> d | Some t \<Rightarrow> if t = [] then d else t)"

definition feedback_head :: string where
  "feedback_head = concat [''Hi {student_name}! I reviewed your work and noticed you struggled with'', '': '',
      [char_of (34::nat)]]"

definition feedback_tip :: string where
  "feedback_tip = concat [[char_of (34::nat)], ''. Here'', [char_of (39::nat)], ''s a short tip: '']"

definition feedback_practice :: string where
  "feedback_practice = concat [''. Try this short practice: '']"

definition feedback_closing :: string where
  "feedback_closing = concat [''. Keep practicing and try similar exercises to improve.'']"

definition student_feedback :: "world \<Rightarrow> string \<Rightarrow> string option \<Rightarrow> json \<Rightarrow> string" where
  "student_feedback w main_error guidance micro_sent =
     (if py_truthy micro_sent
      then feedback_head @ main_error @ feedback_tip @ or_default guidance ''follow the steps above''
             @ feedback_practice @ py_str (repr_other w) micro_sent
      else feedback_head @ main_error @ feedback_tip @ or_default guidance ''review the related concept''
             @ feedback_closing)"

definition empty_submission :: json where
  "empty_submission = JObj [
     (''mainError'', JStr ''Empty or unreadable submission''),
     (''errorPercentage'', JInt 100),
     (''concepts'', JArr []),
     (''suggestions'', JArr [JStr ''Send a clearer image'', JStr ''Check lighting and focus'']),
     (''reasoning'', JStr ''No text recognized'')]"

definition user_prompt :: "string \<Rightarrow> string \<Rightarrow> string" where
  "user_prompt detected_text subject =
     [CHR 0x0A] @ ''OCR Text (limited / sanitized):'' @ [CHR 0x0A] @ take 4000 detected_text
       @ [CHR 0x0A] @ ''---'' @ [CHR 0x0A] @ ''Subject/Context: '' @ subject
       @ [CHR 0x0A, CHR 0x0A] @ ANALYSIS_SCHEMA_INSTRUCTIONS @ [CHR 0x0A]"

definition legacy_questions :: string where
  "legacy_questions = concat [[char_of (10::nat)], [char_of (10::nat)], ''Analyze deeply:'', [char_of (10::nat)],
      ''1. What is the main concept being worked on?'', [char_of (10::nat)],
      ''2. What specific error was made?'', [char_of (10::nat)],
      ''3. Is this error common/recurrent in this type of exercise?'', [char_of (10::nat)],
      ''4. Provide a detailed historical analysis about the patterns of this t'', ''ype of error'',
      [char_of (10::nat)], ''5. Give a specific and practical suggestion for the teacher'',
      [char_of (10::nat)],
      ''6. Generate 2-3 micro-exercises targeted to correct this specific erro'', ''r'']"

definition legacy_prompt :: "string \<Rightarrow> string \<Rightarrow> string \<Rightarrow> string" where
  "legacy_prompt detected_text subject main_error =
     ''Student OCR text: '' @ take 3000 detected_text
       @ [CHR 0x0A, CHR 0x0A] @ ''Context/Subject: '' @ subject
       @ [CHR 0x0A] @ ''Preliminary error summary: '' @ main_error @ legacy_questions"

definition analysis_request :: "string \<Rightarrow> string \<Rightarrow> request" where
  \<comment> \<open>the float literals of the source denote the nearest double\<close>
  "analysis_request p sys = \<lparr>rq_prompt = p, rq_system = sys,
     rq_temperature = round_double (1 / 5), rq_max_output_tokens = 512\<rparr>"

definition finish_analysis ::
  "world \<Rightarrow> string \<Rightarrow> json \<Rightarrow> primary_fields \<Rightarrow> json option \<Rightarrow> json" where
  "finish_analysis w detected_text data f ai_structured =
     (let total_ex = detect_total_exercises detected_text;
          micro_sent = micro_sentence data ai_structured;
          guidance = guidance_of (pf_suggestions f) (pf_reasoning f)
      in JObj [
        (''mainError'', JStr (pf_main_error f)),
        (''errorPercentage'', JInt (pf_error_pct f)),
        (''concepts'', JArr (pf_concepts f)),
        (''suggestions'', JArr (pf_suggestions f)),
        (''reasoning'', JStr (pf_reasoning f)),
        (''ai_analysis'', data),
        (''ai_structured'', (case ai_structured of None \<Rightarrow> JNull | Some a \<Rightarrow> a)),
        (''score'', score_of total_ex (pf_error_pct f)),
        (''studentFeedback'', JStr (student_feedback w (pf_main_error f) guidance micro_sent))])"

definition analyze_text :: "world \<Rightarrow> string \<Rightarrow> string \<Rightarrow> state \<Rightarrow> json result \<times> state" where
  "analyze_text w detected_text subject s =
     (if py_strip detected_text = [] then (Inr empty_submission, s)
      else
        (let (available, s1) = llm_available w s
         in if \<not> available then (Inr (fallback_analysis detected_text subject), s1)
            else
              (let (result, s2) =
                     generate_structured w
                       (analysis_request (user_prompt detected_text subject) ANALYSIS_SYSTEM) 2 s1
               in if \<not> g_success result then (Inr (fallback_analysis detected_text subject), s2)
                  else
                    (case normalize_primary w (g_data result) of
                       Inl e \<Rightarrow> (Inl e, s2)
                     | Inr f \<Rightarrow>
                        (let (legacy_res, s3) =
                               generate_structured w
                                 (analysis_request
                                    (legacy_prompt detected_text subject (pf_main_error f))
                                    legacy_system) 2 s2;
                             ai_structured =
                               (if g_success legacy_res \<and> is_dict (g_data legacy_res)
                                then Some (g_data legacy_res) else None)
                         in (Inr (finish_analysis w detected_text (g_data result) f ai_structured),
                             s3))))))"

section \<open>Grouping and class insights (grouping_engine)\<close>

definition GROUP_SYSTEM :: string where
  "GROUP_SYSTEM = concat [''You are a pedagogical expert. Your job is to analyze short per-student'',
      '' analysis records and produce a compact clustering of students into le'',
      ''arning groups. STRICT REQUIREMENTS: Output only valid JSON (no explana'',
      ''tory text, no markdown). The top-level JSON must be an object with a s'', ''ingle key '',
      [char_of (96::nat)], ''groups'', [char_of (96::nat)],
      '' whose value is a list.Each group must be an object with the following'', '' keys: '',
      [char_of (10::nat)], ''- id: short slug string (use lowercase, hyphen-separated)'',
      [char_of (10::nat)], ''- name: human-friendly name'', [char_of (10::nat)],
      ''- level: one of '', [char_of (34::nat)], ''high'', [char_of (34::nat)], '', '',
      [char_of (34::nat)], ''medium'', [char_of (34::nat)], '', '', [char_of (34::nat)], ''low'',
      [char_of (34::nat)], [char_of (10::nat)],
      ''- color: short tailwind class or hex color string light colors'', [char_of (10::nat)],
      ''- description: short summary (1-2 sentences max)'', [char_of (10::nat)],
      ''- criteria: short rationale for membership (single sentence)'', [char_of (10::nat)],
      ''- commonErrors: array of short strings (top error themes)'', [char_of (10::nat)],
      ''- suggestions: array of short actionable suggestions for the group'', [char_of (10::nat)],
      ''- students: array of student objects, each with keys: { analysisId: st'',
      ''ring, studentName: string, rationale: string }'', [char_of (10::nat)], ''CONSTRAINTS:'',
      [char_of (10::nat)], ''- Return between 2 and 6 groups.'', [char_of (10::nat)],
      ''- A student may appear in multiple groups if they match multiple crite'',
      ''ria (use the analysis ID as unique student reference). Do NOT duplicat'',
      ''e the same student more than once within a single group'', [char_of (39::nat)],
      ''s students array.'', [char_of (10::nat)], ''- If you are uncertain about a student'',
      [char_of (39::nat)], ''s difficulty, put them in '', [char_of (34::nat)], ''medium'',
      [char_of (34::nat)], ''.'', [char_of (10::nat)],
      ''- Keep outputs concise: descriptions <= 200 chars, rationale <= 160 ch'',
      ''ars, at most 10 commonErrors and 10 suggestions per group.'', [char_of (10::nat)],
      ''- Prefer balanced groups when reasonable, but prioritize pedagogical c'', ''oherence.'',
      [char_of (10::nat)], ''ERROR HANDLING: If you cannot produce a valid grouping, return {'',
      [char_of (34::nat)], ''groups'', [char_of (34::nat)], '':[]} as the entire response.'',
      [char_of (10::nat)], ''EXAMPLE OUTPUT:'', [char_of (10::nat)], ''{'', [char_of (10::nat)],
      ''  '', [char_of (34::nat)], ''groups'', [char_of (34::nat)], '': ['', [char_of (10::nat)],
      ''    {'', [char_of (10::nat)], ''      '', [char_of (34::nat)], ''id'', [char_of (34::nat)],
      '': '', [char_of (34::nat)], ''needs-support'', [char_of (34::nat)], '','',
      [char_of (10::nat)], ''      '', [char_of (34::nat)], ''name'', [char_of (34::nat)], '': '',
      [char_of (34::nat)], ''Support Group'', [char_of (34::nat)], '','', [char_of (10::nat)],
      ''      '', [char_of (34::nat)], ''level'', [char_of (34::nat)], '': '', [char_of (34::nat)],
      ''low'', [char_of (34::nat)], '','', [char_of (10::nat)], ''      '', [char_of (34::nat)],
      ''color'', [char_of (34::nat)], '': '', [char_of (34::nat)], ''#fee2e2'',
      [char_of (34::nat)], '','', [char_of (10::nat)], ''      '', [char_of (34::nat)],
      ''description'', [char_of (34::nat)], '': '', [char_of (34::nat)],
      ''Students needing targeted support on fundamentals.'', [char_of (34::nat)], '','',
      [char_of (10::nat)], ''      '', [char_of (34::nat)], ''criteria'', [char_of (34::nat)],
      '': '', [char_of (34::nat)],
      ''High error rates on fraction addition and missing place-value concepts'', ''.'',
      [char_of (34::nat)], '','', [char_of (10::nat)], ''      '', [char_of (34::nat)],
      ''commonErrors'', [char_of (34::nat)], '': ['', [char_of (34::nat)],
      ''incorrect fraction simplification'', [char_of (34::nat)], '', '', [char_of (34::nat)],
      ''misaligned place values'', [char_of (34::nat)], ''],'', [char_of (10::nat)], ''      '',
      [char_of (34::nat)], ''suggestions'', [char_of (34::nat)], '': ['', [char_of (34::nat)],
      ''small-group review lesson'', [char_of (34::nat)], '', '', [char_of (34::nat)],
      ''workbook exercises'', [char_of (34::nat)], ''],'', [char_of (10::nat)], ''      '',
      [char_of (34::nat)], ''students'', [char_of (34::nat)], '': ['', [char_of (10::nat)],
      ''        {'', [char_of (34::nat)], ''analysisId'', [char_of (34::nat)], '': '',
      [char_of (34::nat)], ''a1'', [char_of (34::nat)], '', '', [char_of (34::nat)],
      ''studentName'', [char_of (34::nat)], '': '', [char_of (34::nat)], ''Maria'',
      [char_of (34::nat)], '', '', [char_of (34::nat)], ''rationale'', [char_of (34::nat)], '': '',
      [char_of (34::nat)], ''Consistent errors in fraction addition'', [char_of (34::nat)], ''}'',
      [char_of (10::nat)], ''      ]'', [char_of (10::nat)], ''    }'', [char_of (10::nat)],
      ''  ]'', [char_of (10::nat)], ''}'', [char_of (10::nat)]]"

definition CLASS_SYSTEM :: string where
  "CLASS_SYSTEM = concat [''You are a pedagogical analyst. Given compact per-student analysis line'',
      ''s, produce a JSON object with keys:'', [char_of (10::nat)],
      ''class_name (string), student_count (int), average_error (float), commo'',
      ''nErrors (array of short strings), suggestions (array of short actionab'',
      ''le items), detailed (array of objects with studentName, analysisId, er'',
      ''rorPercentage, shortRationale).'', [char_of (10::nat)],
      ''STRICT: Return ONLY valid JSON (no explanatory text). Keep arrays limi'',
      ''ted to top 8 items.'']"

text \<open>
  A stored analysis, with the fields the schema of the HTTP layer declares for it.
  A field is \<open>None\<close> where the dictionary has no such key: subscripting it raises
  \<open>KeyError\<close>, and \<open>get\<close> gives its default. A timestamp is an ISO 8601 text, compared
  as Python compares strings.
\<close>

record adata =
  d_errorPercentage :: "int option"
  d_mainError :: "string option"
  d_concepts :: "string list option"

record analysis =
  a_id :: "string option"
  a_studentName :: "string option"
  a_subject :: "string option"
  a_timestamp :: "string option"
  a_data :: "adata option"

definition subscript :: "'a option \<Rightarrow> 'a result" where
  \<comment> \<open>\<open>d[k]\<close>\<close>
  "subscript v = (case v of None \<Rightarrow> Inl KeyError | Some x \<Rightarrow> Inr x)"

definition opt_str :: "string option \<Rightarrow> json" where
  "opt_str v = (case v of None \<Rightarrow> JNull | Some t \<Rightarrow> JStr t)"

definition opt_int :: "int option \<Rightarrow> json" where
  "opt_int v = (case v of None \<Rightarrow> JNull | Some i \<Rightarrow> JInt i)"

definition data_or_empty :: "analysis \<Rightarrow> adata" where
  \<comment> \<open>\<open>a.get('data', {})\<close>\<close>
  "data_or_empty a = (case a_data a of
     None \<Rightarrow> \<lparr>d_errorPercentage = None, d_mainError = None, d_concepts = None\<rparr>
   | Some d \<Rightarrow> d)"

definition concepts_text :: "adata \<Rightarrow> string" where
  \<comment> \<open>\<open>','.join(data.get('concepts', [])[:4])\<close>\<close>
  "concepts_text d = join '','' (take 4 (case d_concepts d of None \<Rightarrow> [] | Some cs \<Rightarrow> cs))"

subsection \<open>The cache\<close>

definition CACHE_TTL_SECONDS :: "world \<Rightarrow> int" where
  "CACHE_TTL_SECONDS w = (case ttl_env w of None \<Rightarrow> 120 | Some t \<Rightarrow> t)"

definition cache_key_line :: "analysis \<Rightarrow> string result" where
  "cache_key_line a =
     bind_r (subscript (a_id a)) (\<lambda>i.
     bind_r (subscript (a_data a)) (\<lambda>d.
     bind_r (subscript (d_mainError d)) (\<lambda>me.
     bind_r (subscript (d_errorPercentage d)) (\<lambda>p.
       Inr (i @ ''|'' @ me @ ''|'' @ show_int p)))))"

definition cache_key :: "world \<Rightarrow> analysis list \<Rightarrow> string result" where
  "cache_key w analyses =
     bind_r (map_r cache_key_line analyses) (\<lambda>ls. Inr (sha256_hex w (join '';'' ls)))"

definition store_cache :: "world \<Rightarrow> string \<Rightarrow> json \<Rightarrow> state \<Rightarrow> state" where
  "store_cache w key data s =
     (let (now, s1) = time_now w s in s1\<lparr>cache := (cache s1)(key \<mapsto> (data, now))\<rparr>)"

definition get_cache :: "world \<Rightarrow> string \<Rightarrow> state \<Rightarrow> json option \<times> state" where
  "get_cache w key s =
     (case cache s key of
        None \<Rightarrow> (None, s)
      | Some (data, ts) \<Rightarrow>
         (let (now, s1) = time_now w s
          in if now - ts > of_int (CACHE_TTL_SECONDS w) then (None, s1) else (Some data, s1)))"

definition cached_result ::
  "world \<Rightarrow> string \<Rightarrow> bool \<Rightarrow> state \<Rightarrow> json result option \<times> state" where
  \<comment> \<open>the read path of both operations: a hit is marked \<open>cached\<close> in place and returned\<close>
  "cached_result w key force s =
     (if force then (None, s)
      else
        (case get_cache w key s of
           (None, s1) \<Rightarrow> (None, s1)
         | (Some cached, s1) \<Rightarrow>
            if py_truthy cached then
              (case cached of
                 JObj kvs \<Rightarrow>
                   (let marked = JObj (AList.update ''cached'' (JBool True) kvs)
                    in (Some (Inr marked),
                        s1\<lparr>cache := (cache s1)(key \<mapsto> (marked, snd (the (cache s1 key))))\<rparr>))
               | _ \<Rightarrow> (Some (Inl TypeError), s1))
            else (None, s1)))"

subsection \<open>Grouping by student\<close>

definition student_key :: "analysis \<Rightarrow> string" where
  \<comment> \<open>\<open>a.get('studentName', 'Unknown Student')\<close>\<close>
  "student_key a = (case a_studentName a of None \<Rightarrow> ''Unknown Student'' | Some n \<Rightarrow> n)"

definition timestamp_of :: "analysis \<Rightarrow> string" where
  \<comment> \<open>\<open>a.get('timestamp', '')\<close>\<close>
  "timestamp_of a = (case a_timestamp a of None \<Rightarrow> [] | Some t \<Rightarrow> t)"

fun group_loop :: "(string \<times> analysis) list \<Rightarrow> analysis list \<Rightarrow> (string \<times> analysis) list" where
  "group_loop students [] = students"
| "group_loop students (a # rest) =
     group_loop
       (case map_of students (student_key a) of
          None \<Rightarrow> students @ [(student_key a, a)]
        | Some current \<Rightarrow>
            if timestamp_of current < timestamp_of a
            then AList.update (student_key a) a students
            else students)
       rest"

definition group_analyses_by_student :: "analysis list \<Rightarrow> (string \<times> analysis) list" where
  "group_analyses_by_student analyses = group_loop [] analyses"

subsection \<open>fallback_groups\<close>

datatype level = High | Medium | Low

fun level_name :: "level \<Rightarrow> string" where
  "level_name High = ''high''"
| "level_name Medium = ''medium''"
| "level_name Low = ''low''"

fun level_mapping :: "level \<Rightarrow> string \<times> string \<times> string" where
  "level_mapping High = (''advanced'', ''Advanced Group'', ''bg-green-50 border-green-200'')"
| "level_mapping Medium = (''intermediate'', ''Intermediate Group'', ''bg-yellow-50 border-yellow-200'')"
| "level_mapping Low = (''needs-support'', ''Support Group'', ''bg-red-50 border-red-200'')"

definition bucket_of :: "analysis \<Rightarrow> level result" where
  "bucket_of a =
     bind_r (subscript (a_data a)) (\<lambda>d.
       (let pct = (case d_errorPercentage d of None \<Rightarrow> 50 | Some p \<Rightarrow> p)
        in Inr (if pct < 30 then High else if pct < 60 then Medium else Low)))"

definition main_error_of :: "analysis \<Rightarrow> string result" where
  \<comment> \<open>\<open>a['data']['mainError']\<close>\<close>
  "main_error_of a = bind_r (subscript (a_data a)) (\<lambda>d. subscript (d_mainError d))"

definition student_entry :: "analysis \<Rightarrow> json" where
  "student_entry a = JObj [
     (''analysisId'', opt_str (a_id a)),
     (''studentName'', JStr (student_key a)),
     (''rationale'', JStr ''heuristic'')]"

definition group_of :: "world \<Rightarrow> level \<Rightarrow> analysis list \<Rightarrow> json result" where
  "group_of w lvl items =
     (case level_mapping lvl of (slug, name, color) \<Rightarrow>
        bind_r (map_r main_error_of items) (\<lambda>errs.
          Inr (JObj [
            (''id'', JStr slug),
            (''name'', JStr name),
            (''level'', JStr (level_name lvl)),
            (''color'', JStr color),
            (''description'', JStr ''Heuristic grouping (LLM disabled)''),
            (''criteria'', JStr (''errorPercentage bucket '' @ level_name lvl)),
            (''commonErrors'', JArr (map JStr (take 5 (set_order w errs)))),
            (''suggestions'', JArr [JStr ''Enable GEMINI_API_KEY for richer grouping'']),
            (''students'', JArr (map student_entry items))])))"

definition bucket_items :: "analysis list \<Rightarrow> level list \<Rightarrow> level \<Rightarrow> analysis list" where
  "bucket_items unique lvls lvl = map fst (filter (\<lambda>(a, l). l = lvl) (zip unique lvls))"

definition groups_payload :: "json list \<Rightarrow> bool \<Rightarrow> json" where
  "groups_payload groups llm =
     JObj [(''groups'', JArr groups), (''llm'', JBool llm), (''cached'', JBool False)]"

definition fallback_groups :: "world \<Rightarrow> analysis list \<Rightarrow> json result" where
  "fallback_groups w analyses =
     (let unique_analyses = map snd (group_analyses_by_student analyses)
      in bind_r (map_r bucket_of unique_analyses) (\<lambda>lvls.
         bind_r (map_r (\<lambda>lvl. group_of w lvl (bucket_items unique_analyses lvls lvl))
                   (filter (\<lambda>lvl. bucket_items unique_analyses lvls lvl \<noteq> []) [High, Medium, Low]))
           (\<lambda>groups. Inr (groups_payload groups False))))"

subsection \<open>build_groups\<close>

definition group_line :: "analysis \<Rightarrow> string result" where
  "group_line a =
     bind_r (subscript (a_id a)) (\<lambda>i.
     bind_r (subscript (a_studentName a)) (\<lambda>n.
     bind_r (subscript (a_subject a)) (\<lambda>sb.
     bind_r (subscript (a_data a)) (\<lambda>d.
     bind_r (subscript (d_errorPercentage d)) (\<lambda>p.
     bind_r (subscript (d_mainError d)) (\<lambda>me.
       Inr (''ID='' @ i @ ''|student='' @ n @ ''|subject='' @ sb @ ''|error%='' @ show_int p
            @ ''|mainError='' @ me @ ''|concepts='' @ concepts_text d)))))))"

definition group_prompt_head :: string where
  "group_prompt_head = concat [''Analysis data (one per line, each representing a unique student):'', [char_of (10::nat)]]"

definition group_prompt_tail :: string where
  "group_prompt_tail = concat [[char_of (10::nat)], ''Generate JSON with '', [char_of (39::nat)], ''groups'',
      [char_of (39::nat)],
      '' key. Grouping is by student characteristics; a student may appear in '',
      ''multiple groups when appropriate. Do NOT duplicate the same student mo'',
      ''re than once within a single group'', [char_of (39::nat)],
      ''s students array. See system instructions.'']"

definition norm_student :: "world \<Rightarrow> json \<Rightarrow> json result" where
  "norm_student w st =
     bind_r (py_get st ''id'' (JStr [])) (\<lambda>i.
     bind_r (py_get st ''studentName'' (JStr ''Unknown Student'')) (\<lambda>n.
     bind_r (py_get st ''rationale'' (JStr [])) (\<lambda>r.
       Inr (JObj [
         (''analysisId'', JStr (py_str (repr_other w) i)),
         (''studentName'', JStr (py_str (repr_other w) n)),
         (''rationale'', JStr (take 160 (py_str (repr_other w) r)))]))))"

definition norm_group :: "world \<Rightarrow> json \<Rightarrow> json result" where
  "norm_group w g =
     bind_r (py_get g ''id'' (JStr ''group'')) (\<lambda>i.
     bind_r (py_get g ''name'' (JStr ''Group'')) (\<lambda>n.
     bind_r (py_get g ''level'' (JStr ''medium'')) (\<lambda>lv.
     bind_r (py_get g ''color'' (JStr ''bg-gray-50 border-gray-200'')) (\<lambda>c.
     bind_r (py_slice 80 c) (\<lambda>color.
     bind_r (py_get g ''description'' (JStr [])) (\<lambda>ds.
     bind_r (py_get g ''criteria'' (JStr [])) (\<lambda>cr.
     bind_r (py_get g ''commonErrors'' (JArr [])) (\<lambda>ces.
     bind_r (bounded_strings w 120 10 ces) (\<lambda>common.
     bind_r (py_get g ''suggestions'' (JArr [])) (\<lambda>sgs.
     bind_r (bounded_strings w 160 10 sgs) (\<lambda>suggestions.
     bind_r (py_get g ''students'' (JArr [])) (\<lambda>sts.
     bind_r (py_slice 200 sts) (\<lambda>sts200.
     bind_r (py_iter sts200) (\<lambda>members.
     bind_r (map_r (norm_student w) members) (\<lambda>students.
       Inr (JObj [
         (''id'', JStr (take 40 (py_str (repr_other w) i))),
         (''name'', JStr (take 80 (py_str (repr_other w) n))),
         (''level'', lv),
         (''color'', color),
         (''description'', JStr (take 300 (py_str (repr_other w) ds))),
         (''criteria'', JStr (take 200 (py_str (repr_other w) cr))),
         (''commonErrors'', JArr common),
         (''suggestions'', JArr suggestions),
         (''students'', JArr students)]))))))))))))))))"

definition norm_groups :: "world \<Rightarrow> json \<Rightarrow> json list result" where
  \<comment> \<open>the loop over \<open>groups[:10]\<close>\<close>
  "norm_groups w groups =
     bind_r (py_slice 10 groups) (\<lambda>g10.
     bind_r (py_iter g10) (\<lambda>gs. map_r (norm_group w) gs))"

definition has_key :: "string \<Rightarrow> json \<Rightarrow> bool" where
  \<comment> \<open>\<open>k in d\<close> for a dict\<close>
  "has_key k v = (case v of JObj kvs \<Rightarrow> map_of kvs k \<noteq> None | _ \<Rightarrow> False)"

definition stored :: "world \<Rightarrow> string \<Rightarrow> json result \<Rightarrow> state \<Rightarrow> json result \<times> state" where
  \<comment> \<open>\<open>_store_cache(key, data); return data\<close>, unless computing \<open>data\<close> raised\<close>
  "stored w key r s = (case r of Inl e \<Rightarrow> (Inl e, s) | Inr data \<Rightarrow> (Inr data, store_cache w key data s))"

definition build_groups :: "world \<Rightarrow> analysis list \<Rightarrow> bool \<Rightarrow> state \<Rightarrow> json result \<times> state" where
  "build_groups w analyses force s =
     (if analyses = [] then
        (let (available, s1) = llm_available w s in (Inr (groups_payload [] available), s1))
      else
        (let unique_analyses = map snd (group_analyses_by_student analyses)
         in case cache_key w unique_analyses of
              Inl e \<Rightarrow> (Inl e, s)
            | Inr key \<Rightarrow>
               (case cached_result w key force s of
                  (Some hit, s1) \<Rightarrow> (hit, s1)
                | (None, s1) \<Rightarrow>
                   (let (available, s2) = llm_available w s1
                    in if \<not> available then stored w key (fallback_groups w unique_analyses) s2
                       else
                         (case map_r group_line (take 120 unique_analyses) of
                            Inl e \<Rightarrow> (Inl e, s2)
                          | Inr lines \<Rightarrow>
                             (let prompt = group_prompt_head @ join [CHR 0x0A] lines @ group_prompt_tail;
                                  (result, s3) =
                                    generate_structured w
                                      \<lparr>rq_prompt = prompt, rq_system = GROUP_SYSTEM,
                                        rq_temperature = 1 / 4, rq_max_output_tokens = 5048\<rparr> 2 s2
                              in if \<not> g_success result \<or> \<not> has_key ''groups'' (g_data result)
                                 then stored w key (fallback_groups w unique_analyses) s3
                                 else
                                   stored w key
                                     (bind_r (py_get (g_data result) ''groups'' JNull) (\<lambda>groups.
                                      bind_r (norm_groups w groups) (\<lambda>norm.
                                        Inr (groups_payload norm True))))
                                     s3))))))"

subsection \<open>build_class_insights\<close>

definition class_key_line :: "analysis \<Rightarrow> string result" where
  "class_key_line a =
     bind_r (subscript (a_id a)) (\<lambda>i.
     bind_r (subscript (a_data a)) (\<lambda>d.
       Inr (i @ ''|'' @ py_str (\<lambda>v. []) (opt_str (d_mainError d)) @ ''|''
              @ py_str (\<lambda>v. []) (opt_int (d_errorPercentage d)))))"

definition cache_key_for_class :: "world \<Rightarrow> analysis list \<Rightarrow> string \<Rightarrow> string result" where
  "cache_key_for_class w analyses class_name =
     bind_r (map_r class_key_line analyses) (\<lambda>ls.
       Inr (''class:'' @ class_name @ '':'' @ sha256_hex w (join '';'' ls)))"

definition class_payload ::
  "string \<Rightarrow> int \<Rightarrow> pyfloat \<Rightarrow> json list \<Rightarrow> json list \<Rightarrow> json list \<Rightarrow> bool \<Rightarrow> json" where
  "class_payload class_name student_count average_error common suggestions detailed llm =
     JObj [
       (''class_name'', JStr class_name),
       (''student_count'', JInt student_count),
       (''average_error'', JFloat average_error),
       (''commonErrors'', JArr common),
       (''suggestions'', JArr suggestions),
       (''detailed'', JArr detailed),
       (''llm'', JBool llm),
       (''cached'', JBool False)]"

definition error_pct_float :: "analysis \<Rightarrow> pyfloat" where
  \<comment> \<open>\<open>float(data.get('errorPercentage') or 0)\<close>, \<open>0.0\<close> when the conversion raises\<close>
  "error_pct_float a =
     (case float_of_int (case d_errorPercentage (data_or_empty a) of None \<Rightarrow> 0 | Some p \<Rightarrow> p) of
        Inl e \<Rightarrow> Fin 0
      | Inr x \<Rightarrow> x)"

definition main_error_label :: "analysis \<Rightarrow> string" where
  \<comment> \<open>\<open>data.get('mainError') or 'Unknown'\<close>\<close>
  "main_error_label a =
     (case d_mainError (data_or_empty a) of
        None \<Rightarrow> ''Unknown''
      | Some me \<Rightarrow> if me = [] then ''Unknown'' else me)"

fun count_errors :: "(string \<times> nat) list \<Rightarrow> analysis list \<Rightarrow> (string \<times> nat) list" where
  "count_errors main_errors [] = main_errors"
| "count_errors main_errors (a # rest) =
     count_errors
       (AList.update (main_error_label a)
          ((case map_of main_errors (main_error_label a) of None \<Rightarrow> 0 | Some n \<Rightarrow> n) + 1)
          main_errors)
       rest"

definition detail_row :: "analysis \<Rightarrow> json" where
  "detail_row a = JObj [
     (''studentName'', opt_str (a_studentName a)),
     (''analysisId'', opt_str (a_id a)),
     (''errorPercentage'', opt_int (d_errorPercentage (data_or_empty a))),
     (''shortRationale'',
        JStr (take 140 (py_str (\<lambda>v. []) (opt_str (d_mainError (data_or_empty a))))))]"

definition heuristic_class_insights :: "analysis list \<Rightarrow> string \<Rightarrow> json" where
  \<comment> \<open>the branch taken when the gateway is not available\<close>
  "heuristic_class_insights analyses class_name =
     (let total = foldl (\<lambda>t a. float_add t (error_pct_float a)) (Fin 0) analyses;
          count = length analyses;
          avg = float_round2 (if count \<noteq> 0 then float_div_nat total count else Fin 0);
          sorted_errors = take 8 (sort_key (\<lambda>(e, n). - int n) (count_errors [] analyses));
          common = map (\<lambda>(e, n). JStr e) sorted_errors
      in class_payload class_name (int count) avg common
           [JStr ''Review common mistakes in class; use small-group exercises'']
           (map detail_row (take 40 analyses)) False)"

definition class_line :: "analysis \<Rightarrow> string result" where
  "class_line a =
     bind_r (subscript (a_id a)) (\<lambda>i.
       Inr (''ID='' @ i @ ''|student='' @ py_str (\<lambda>v. []) (opt_str (a_studentName a))
            @ ''|error%='' @ py_str (\<lambda>v. []) (opt_int (d_errorPercentage (data_or_empty a)))
            @ ''|mainError='' @ py_str (\<lambda>v. []) (opt_str (d_mainError (data_or_empty a)))
            @ ''|concepts='' @ concepts_text (data_or_empty a)))"

definition class_prompt_head :: string where
  "class_prompt_head = concat [''Class-level analyses (one per line):'', [char_of (10::nat)]]"

definition class_prompt_tail :: string where
  "class_prompt_tail = concat [[char_of (10::nat)], ''Produce a JSON object as described in the system instruction.'']"

fun py_float :: "world \<Rightarrow> json \<Rightarrow> pyfloat result" where
  \<comment> \<open>\<open>float(v)\<close>\<close>
  "py_float w (JInt i) = float_of_int i"
| "py_float w (JBool b) = Inr (Fin (if b then 1 else 0))"
| "py_float w (JFloat f) = Inr f"
| "py_float w (JStr t) = (case float_of_str w t of None \<Rightarrow> Inl ValueError | Some f \<Rightarrow> Inr f)"
| "py_float w v = Inl TypeError"

definition sanitize_class_data :: "world \<Rightarrow> (string \<times> json) list \<Rightarrow> string \<Rightarrow> nat \<Rightarrow> json result" where
  \<comment> \<open>the assignments to \<open>data\<close> after a successful call\<close>
  "sanitize_class_data w kvs class_name n =
     (let d1 = AList.update ''class_name''
                 (case map_of kvs ''class_name'' of None \<Rightarrow> JStr class_name | Some v \<Rightarrow> v) kvs;
          sc = (case map_of d1 ''student_count'' of None \<Rightarrow> JNull | Some v \<Rightarrow> v)
      in bind_r (py_int (if py_truthy sc then sc else JInt (int n))) (\<lambda>student_count.
         (let d2 = AList.update ''student_count'' (JInt student_count) d1;
              ae = (case map_of d2 ''average_error'' of None \<Rightarrow> JNull | Some v \<Rightarrow> v);
              average_error = (case py_float w (if py_truthy ae then ae else JFloat (Fin 0)) of
                                 Inl e \<Rightarrow> Fin 0 | Inr f \<Rightarrow> f);
              d3 = AList.update ''average_error'' (JFloat average_error) d2;
              d4 = AList.update ''llm'' (JBool True) d3;
              d5 = AList.update ''cached'' (JBool False) d4
          in Inr (JObj d5))))"

definition build_class_insights ::
  "world \<Rightarrow> analysis list \<Rightarrow> string \<Rightarrow> bool \<Rightarrow> state \<Rightarrow> json result \<times> state" where
  "build_class_insights w analyses class_name force s =
     (if analyses = [] then
        (let (available, s1) = llm_available w s
         in (Inr (class_payload class_name 0 (Fin 0) [] [] [] available), s1))
      else
        (case cache_key_for_class w analyses class_name of
           Inl e \<Rightarrow> (Inl e, s)
         | Inr key \<Rightarrow>
            (case cached_result w key force s of
               (Some hit, s1) \<Rightarrow> (hit, s1)
             | (None, s1) \<Rightarrow>
                (let (available, s2) = llm_available w s1
                 in if \<not> available
                    then stored w key (Inr (heuristic_class_insights analyses class_name)) s2
                    else
                      (case map_r class_line (take 400 analyses) of
                         Inl e \<Rightarrow> (Inl e, s2)
                       | Inr lines \<Rightarrow>
                          (let prompt = class_prompt_head @ join [CHR 0x0A] lines @ class_prompt_tail;
                               (result, s3) =
                                 generate_structured w
                                   \<lparr>rq_prompt = prompt, rq_system = CLASS_SYSTEM,
                                     rq_temperature = round_double (1 / 5),
                                     rq_max_output_tokens = 1500\<rparr> 2 s2
                           in if \<not> g_success result \<or> \<not> is_dict (g_data result) then
                                (let (still_available, s4) = llm_available w s3
                                 in if \<not> still_available
                                    then stored w key
                                           (Inr (heuristic_class_insights analyses class_name))
                                           (store_cache w key
                                              (heuristic_class_insights analyses class_name) s4)
                                    else stored w key
                                           (Inr (class_payload class_name (int (length analyses))
                                                   (Fin 0) [] [] [] True))
                                           s4)
                              else
                                (case g_data result of
                                   JObj kvs \<Rightarrow>
                                     stored w key
                                       (sanitize_class_data w kvs class_name (length analyses)) s3
                                 | _ \<Rightarrow> (Inl AttributeError, s3))))))))"

section \<open>Notions used in the properties\<close>

subsection \<open>The retry loop\<close>

definition attempt_fails :: "world \<Rightarrow> request \<Rightarrow> nat \<Rightarrow> bool" where
  "attempt_fails w rq n =
     (case reply w n rq of Raises msg \<Rightarrow> True | Returns t \<Rightarrow> extract_json w t = None)"

definition error_text :: "world \<Rightarrow> request \<Rightarrow> nat \<Rightarrow> string" where
  "error_text w rq n =
     (case reply w n rq of Raises msg \<Rightarrow> msg | Returns t \<Rightarrow> ''JSON not found / invalid'')"

definition backoff_from :: "int \<Rightarrow> nat \<Rightarrow> rat list" where
  "backoff_from a k = map (\<lambda>i. of_int (a + 1 + int i) / 2) [0..<k]"

definition gateway_ready :: "world \<Rightarrow> state \<Rightarrow> bool" where
  "gateway_ready w s = (let s0 = init_client w s in llm_avail s0 \<and> st_provider s0 \<noteq> None)"

definition demo_world :: world where
  "demo_world = \<lparr>groq_key = True, gemini_key = False, genai_ok = False,
     reply = (\<lambda>n rq. if n = 0 then Raises ''timeout''
                      else if n = 1 then Returns ''no json here''
                      else if n = 2 then Raises ''boom''
                      else Returns ''{}''),
     clock = (\<lambda>n. of_nat n),
     json_loads = (\<lambda>c. if c = ''{}'' then Some [] else None),
     sha256_hex = (\<lambda>b. b),
     repr_other = (\<lambda>v. ''?''),
     set_order = remdups,
     float_of_str = (\<lambda>t. None),
     ttl_env = None\<rparr>"

definition demo_request :: request where
  "demo_request = \<lparr>rq_prompt = ''p'', rq_system = ''s'', rq_temperature = 1 / 5,
     rq_max_output_tokens = 512\<rparr>"

subsection \<open>The cache\<close>

definition cache_demo_world :: world where
  "cache_demo_world = demo_world\<lparr>clock := (\<lambda>n. if n = 0 then 0 else if n = 1 then 119 else 121)\<rparr>"

definition cache_demo_payload :: json where
  "cache_demo_payload = JObj [(''groups'', JArr []), (''llm'', JBool False), (''cached'', JBool False)]"

subsection \<open>Returned structures\<close>

text \<open>The value a returned structure holds under a key, if it has the key.\<close>

definition field :: "string \<Rightarrow> json \<Rightarrow> json option" where
  "field k v = (case v of JObj kvs \<Rightarrow> map_of kvs k | _ \<Rightarrow> None)"

definition blank_text :: string where
  "blank_text = [CHR '' '', CHR 0x09, CHR 0x0A, CHR '' '']"

subsection \<open>Worlds for the analysis\<close>

definition answering_world :: "(string \<times> json) list \<Rightarrow> world" where
  \<comment> \<open>a provider that answers every request with one JSON object\<close>
  "answering_world kvs = demo_world\<lparr>reply := (\<lambda>n rq. Returns ''{}''),
     json_loads := (\<lambda>c. if c = ''{}'' then Some kvs else None)\<rparr>"

definition overshoot_world :: world where
  "overshoot_world = answering_world [(''mainError'', JStr ''sign error''),
     (''errorPercentage'', JInt 150)]"

subsection \<open>The score\<close>

definition float_score :: "nat \<Rightarrow> int \<Rightarrow> rat" where
  \<comment> \<open>the double that \<open>(100 - error_pct) / 100.0 * total_ex\<close> evaluates to\<close>
  "float_score total_ex error_pct =
     round_double (round_double (round_double (of_int (100 - error_pct)) / 100)
       * round_double (of_nat total_ex))"

definition within_ulps :: "nat \<Rightarrow> rat \<Rightarrow> rat \<Rightarrow> bool" where
  \<comment> \<open>\<open>y\<close> is \<open>x\<close> up to \<open>k\<close> roundings\<close>
  "within_ulps k x y = (x * (1 - 1 / 2 ^ 53) ^ k \<le> y \<and> y \<le> x * (1 + 1 / 2 ^ 53) ^ k)"

definition exact_score :: "nat \<Rightarrow> int \<Rightarrow> int" where
  \<comment> \<open>the specification's formula, computed in exact arithmetic: the rounded value of
      \<open>(100 - pct) / 100 * total\<close>, clamped into the interval from 0 to \<open>total\<close>\<close>
  "exact_score total_ex error_pct =
     max 0 (min (int total_ex) (round_half_even (of_int ((100 - error_pct) * int total_ex) / 100)))"

definition quarter_world :: world where
  "quarter_world = answering_world [(''mainError'', JStr ''carry forgotten''),
     (''errorPercentage'', JInt 25)]"

definition four_exercises :: string where
  "four_exercises = ''1. 12+9'' @ [CHR 0x0A] @ ''2. 7+5'' @ [CHR 0x0A] @ ''3. 8+8''
     @ [CHR 0x0A] @ ''4. 19+3''"

subsection \<open>Groups and tiers\<close>











section \<open>Facts shared by the proofs\<close>

lemma py_strip_blank: "list_all py_isspace t \<Longrightarrow> py_strip t = []"
proof -
  assume "list_all py_isspace t"
  then have d: "dropWhile py_isspace t = []"
    by (simp add: dropWhile_eq_Nil_conv list_all_iff)
  show ?thesis
    by (simp only: py_strip_def d rev.simps dropWhile.simps)
qed

lemma extract_json_dict: "extract_json w t = Some d \<Longrightarrow> \<exists>kvs. d = JObj kvs"
  by (auto simp: extract_json_def Let_def split: option.splits if_splits)

lemma attempt_loop_success_dict:
  "attempt_loop w rq mr a le s = (r, s') \<Longrightarrow> g_success r \<Longrightarrow> \<exists>kvs. g_data r = JObj kvs"
proof (induction "nat (mr + 1 - a)" arbitrary: a le s)
  case 0
  then have "\<not> a \<le> mr" by simp
  with "0.prems" show ?case
    by (auto simp: attempt_loop.simps failure_result_def)
next
  case (Suc n)
  then have le: "a \<le> mr" by simp
  from Suc.hyps(2) have n: "n = nat (mr + 1 - (a + 1))" by simp
  show ?case
  proof (cases "reply w (m_requests s) rq")
    case (Raises msg)
    with le Suc.prems(1) obtain s1 where
      "attempt_loop w rq mr (a + 1) (Some msg) s1 = (r, s')"
      by (subst (asm) attempt_loop.simps) (simp add: time_now_def Let_def)
    from Suc.hyps(1) [OF n this Suc.prems(2)] show ?thesis .
  next
    case (Returns t)
    show ?thesis
    proof (cases "extract_json w t")
      case None
      with le Returns Suc.prems(1) obtain s1 where
        "attempt_loop w rq mr (a + 1) (Some ''JSON not found / invalid'') s1 = (r, s')"
        by (subst (asm) attempt_loop.simps) (simp add: time_now_def Let_def)
      from Suc.hyps(1) [OF n this Suc.prems(2)] show ?thesis .
    next
      case (Some d)
      with le Returns Suc.prems(1) have "g_data r = d"
        by (subst (asm) attempt_loop.simps) (auto simp: time_now_def Let_def)
      with extract_json_dict [OF Some] show ?thesis by simp
    qed
  qed
qed

lemma generate_structured_success_dict:
  assumes "generate_structured w rq mr s = (r, s')" and "g_success r"
  shows "\<exists>kvs. g_data r = JObj kvs"
proof (cases "\<not> llm_avail (init_client w s) \<or> st_provider (init_client w s) = None")
  case True
  with assms show ?thesis
    by (auto simp: generate_structured_def Let_def disabled_result_def)
next
  case False
  with assms(1) have "attempt_loop w rq mr 0 None (init_client w s) = (r, s')"
    by (auto simp: generate_structured_def Let_def)
  from attempt_loop_success_dict [OF this assms(2)] show ?thesis .
qed

lemma clamp_error_pct_range: "0 \<le> clamp_error_pct v \<and> clamp_error_pct v \<le> 100"
  by (simp add: clamp_error_pct_def Let_def)

lemma clamp_error_pct_cases:
  "clamp_error_pct v =
     (case py_int v of Inr i \<Rightarrow> (if i < 0 then 0 else if 100 < i then 100 else i) | Inl e \<Rightarrow> 50)"
  by (simp add: clamp_error_pct_def Let_def split: sum.splits)

lemma bounded_strings_cases:
  "bounded_strings w width n v = Inl e \<Longrightarrow> e = TypeError \<and> py_iter v = Inl TypeError"
  by (cases v) (auto simp: bounded_strings_def bind_r_def)

subsection \<open>The grouping fallback\<close>


















section \<open>The gateway retries within its budget\<close>

lemma backoff_from_Suc: "backoff_from a (Suc k) = (of_int (a + 1) / 2) # backoff_from (a + 1) k"
proof -
  have "[0..<Suc k] = 0 # map Suc [0..<k]"
    by (simp add: upt_conv_Cons map_Suc_upt del: upt_Suc)
  then show ?thesis
    by (simp add: backoff_from_def comp_def add.assoc add.commute del: upt_Suc)
qed

lemma attempt_loop_fail_step:
  assumes "a \<le> mr" and "attempt_fails w rq (m_requests s)"
  shows "\<exists>s1. m_requests s1 = Suc (m_requests s) \<and> sleeps s1 = sleeps s @ [of_int (a + 1) / 2] \<and>
           attempt_loop w rq mr a le s =
           attempt_loop w rq mr (a + 1) (Some (error_text w rq (m_requests s))) s1"
proof (cases "reply w (m_requests s) rq")
  case (Raises msg)
  with assms(1) show ?thesis
    apply (subst attempt_loop.simps)
    apply (simp add: time_now_def time_sleep_def error_text_def Let_def)
    apply (rule exI)
    apply (intro conjI)
      prefer 3
      apply (rule refl)
     apply simp_all
    done
next
  case (Returns t)
  with assms(2) have "extract_json w t = None"
    by (simp add: attempt_fails_def)
  with assms(1) Returns show ?thesis
    apply (subst attempt_loop.simps)
    apply (simp add: time_now_def time_sleep_def error_text_def Let_def)
    apply (rule exI)
    apply (intro conjI)
      prefer 3
      apply (rule refl)
     apply simp_all
    done
qed

lemma attempt_loop_ok_step:
  assumes "a \<le> mr" and "\<not> attempt_fails w rq (m_requests s)"
    and "attempt_loop w rq mr a le s = (r, s')"
  shows "g_success r \<and> m_requests s' = Suc (m_requests s) \<and> sleeps s' = sleeps s"
proof (cases "reply w (m_requests s) rq")
  case (Raises msg)
  with assms(2) show ?thesis by (simp add: attempt_fails_def)
next
  case (Returns t)
  with assms(2) obtain d where "extract_json w t = Some d"
    by (auto simp: attempt_fails_def)
  with assms(1,3) Returns show ?thesis
    by (subst (asm) attempt_loop.simps)
       (auto simp: time_now_def time_sleep_def Let_def)
qed

lemma attempt_loop_spec:
  "attempt_loop w rq mr a le s = (r, s') \<Longrightarrow>
   \<exists>k. m_requests s' = m_requests s + k \<and> int k \<le> max 0 (mr + 1 - a) \<and>
     (if g_success r
      then 1 \<le> k \<and> \<not> attempt_fails w rq (m_requests s + k - 1) \<and>
           (\<forall>i<k - 1. attempt_fails w rq (m_requests s + i)) \<and>
           sleeps s' = sleeps s @ backoff_from a (k - 1)
      else int k = max 0 (mr + 1 - a) \<and>
           (\<forall>i<k. attempt_fails w rq (m_requests s + i)) \<and>
           sleeps s' = sleeps s @ backoff_from a k \<and>
           r = failure_result (if k = 0 then le else Some (error_text w rq (m_requests s + k - 1))))"
proof (induction "nat (mr + 1 - a)" arbitrary: a le s r s')
  case 0
  then have "\<not> a \<le> mr" by simp
  with "0.prems" have "r = failure_result le" "s' = s"
    by (simp_all add: attempt_loop.simps)
  with \<open>\<not> a \<le> mr\<close> show ?case
    by (intro exI [of _ 0]) (simp add: failure_result_def backoff_from_def)
next
  case (Suc n)
  then have le: "a \<le> mr" by simp
  show ?case
  proof (cases "attempt_fails w rq (m_requests s)")
    case False
    from attempt_loop_ok_step [OF le False Suc.prems] le show ?thesis
      by (intro exI [of _ 1]) (simp add: False backoff_from_def)
  next
    case True
    from attempt_loop_fail_step [OF le True, of le] obtain s1 where
      s1: "m_requests s1 = Suc (m_requests s)" "sleeps s1 = sleeps s @ [of_int (a + 1) / 2]"
      and eq: "attempt_loop w rq mr a le s =
               attempt_loop w rq mr (a + 1) (Some (error_text w rq (m_requests s))) s1"
      by blast
    from Suc.hyps(2) have n: "n = nat (mr + 1 - (a + 1))" by simp
    from eq Suc.prems have run: "attempt_loop w rq mr (a + 1) (Some (error_text w rq (m_requests s))) s1 = (r, s')"
      by simp
    from Suc.hyps(1) [OF n run] obtain k where
      k1: "m_requests s' = m_requests s1 + k" "int k \<le> max 0 (mr + 1 - (a + 1))"
      and k2: "if g_success r
        then 1 \<le> k \<and> \<not> attempt_fails w rq (m_requests s1 + k - 1) \<and>
           (\<forall>i<k - 1. attempt_fails w rq (m_requests s1 + i)) \<and>
           sleeps s' = sleeps s1 @ backoff_from (a + 1) (k - 1)
        else int k = max 0 (mr + 1 - (a + 1)) \<and>
           (\<forall>i<k. attempt_fails w rq (m_requests s1 + i)) \<and>
           sleeps s' = sleeps s1 @ backoff_from (a + 1) k \<and>
           r = failure_result (if k = 0 then Some (error_text w rq (m_requests s)) else Some (error_text w rq (m_requests s1 + k - 1)))"
      by blast
    have all: "\<And>m. (\<forall>i<m. attempt_fails w rq (m_requests s1 + i)) \<Longrightarrow>
                  (\<forall>i<Suc m. attempt_fails w rq (m_requests s + i))"
    proof (intro allI impI)
      fix m i assume h: "\<forall>i<m. attempt_fails w rq (m_requests s1 + i)" and "i < Suc m"
      then show "attempt_fails w rq (m_requests s + i)"
        using True s1(1) by (cases i) auto
    qed
    show ?thesis
    proof (cases "g_success r")
      case True
      with k2 have k: "1 \<le> k" "\<not> attempt_fails w rq (m_requests s1 + k - 1)"
        "\<forall>i<k - 1. attempt_fails w rq (m_requests s1 + i)"
        "sleeps s' = sleeps s1 @ backoff_from (a + 1) (k - 1)" by simp_all
      from k(1) obtain j where j: "k = Suc j" by (cases k) auto
      from all [OF k(3)] have "\<forall>i<Suc k - 1. attempt_fails w rq (m_requests s + i)"
        using j by simp
      moreover have "sleeps s' = sleeps s @ backoff_from a (Suc k - 1)"
        using k(4) s1(2) unfolding j by (simp add: backoff_from_Suc)
      ultimately show ?thesis
        using True k1 k(1,2) le s1(1) by (intro exI [of _ "Suc k"]) simp
    next
      case False
      with k2 have k: "int k = max 0 (mr + 1 - (a + 1))"
        "\<forall>i<k. attempt_fails w rq (m_requests s1 + i)"
        "sleeps s' = sleeps s1 @ backoff_from (a + 1) k"
        "r = failure_result (if k = 0 then Some (error_text w rq (m_requests s)) else Some (error_text w rq (m_requests s1 + k - 1)))"
        by simp_all
      have "sleeps s' = sleeps s @ backoff_from a (Suc k)"
        using k(3) s1(2) by (simp add: backoff_from_Suc)
      moreover have "r = failure_result (Some (error_text w rq (m_requests s + Suc k - 1)))"
        using k(4) s1(1) by (cases "k = 0") simp_all
      ultimately show ?thesis
        using False k1 k(1) all [OF k(2)] le s1(1) by (intro exI [of _ "Suc k"]) simp
    qed
  qed
qed

text \<open>
  Claim C9. A call of \<open>generate_structured\<close> with a retry budget \<open>max_retries \<ge> 0\<close> issues
  at most \<open>max_retries + 1\<close> requests. Every attempt before the last one failed (the
  provider raised, or its text held no JSON object that could be extracted), and after
  the n-th failed attempt the gateway slept \<open>0.5 * n\<close> seconds. When the call does not
  succeed and a provider is configured, all \<open>max_retries + 1\<close> attempts were made and
  the result is a failure whose \<open>error\<close> field holds the text of the last error (the
  provider's exception text, or the note that no JSON was found; \<open>unknown\<close> when that
  text is empty); nothing is raised, the function being total.
\<close>

theorem generate_structured_retry_policy:
  assumes "generate_structured w rq max_retries s = (r, s')" and "0 \<le> max_retries"
  shows "\<exists>k. m_requests s' = m_requests s + k \<and> int k \<le> max_retries + 1 \<and>
           (\<forall>i < (if g_success r then k - 1 else k). attempt_fails w rq (m_requests s + i)) \<and>
           sleeps s' = sleeps s @ map (\<lambda>n. of_nat n / 2) [1..<Suc (if g_success r then k - 1 else k)] \<and>
           (if g_success r then 1 \<le> k \<and> \<not> attempt_fails w rq (m_requests s + k - 1)
            else if gateway_ready w s
              then int k = max_retries + 1 \<and>
                   r = failure_result (Some (error_text w rq (m_requests s + k - 1))) \<and>
                   g_error r =
                     Some (if error_text w rq (m_requests s + k - 1) = [] then ''unknown''
                           else error_text w rq (m_requests s + k - 1)) \<and>
                   g_data r = JObj [] \<and> g_raw r = [] \<and> g_llm_enabled r
              else k = 0 \<and> r = disabled_result \<and>
                   g_error r = Some ''LLM disabled (no API_GROQ or GEMINI_API_KEY)'' \<and>
                   g_data r = JObj [] \<and> g_raw r = [] \<and> \<not> g_llm_enabled r)"
proof (cases "gateway_ready w s")
  case False
  with assms(1) have "r = disabled_result" "s' = init_client w s"
    by (auto simp: generate_structured_def gateway_ready_def Let_def)
  moreover have "m_requests (init_client w s) = m_requests s" "sleeps (init_client w s) = sleeps s"
    by (simp_all add: init_client_def)
  ultimately show ?thesis
    using False assms(2) by (intro exI [of _ 0]) (simp add: disabled_result_def)
next
  case True
  define s0 where "s0 = init_client w s"
  have s0: "m_requests s0 = m_requests s" "sleeps s0 = sleeps s"
    by (simp_all add: s0_def init_client_def)
  from True assms(1) have run: "attempt_loop w rq max_retries 0 None s0 = (r, s')"
    by (auto simp: generate_structured_def gateway_ready_def Let_def s0_def)
  have bf: "\<And>k. backoff_from 0 k = map (\<lambda>n. of_nat n / 2) [1..<Suc k]"
  proof -
    fix k
    have "[1..<Suc k] = map Suc [0..<k]"
      by (simp add: map_Suc_upt del: upt_Suc)
    then show "backoff_from 0 k = map (\<lambda>n. of_nat n / 2) [1..<Suc k]"
      by (simp add: backoff_from_def comp_def add.commute del: upt_Suc)
  qed
  from attempt_loop_spec [OF run] obtain k where
    k1: "m_requests s' = m_requests s0 + k" "int k \<le> max 0 (max_retries + 1 - 0)"
    and k2: "if g_success r
      then 1 \<le> k \<and> \<not> attempt_fails w rq (m_requests s0 + k - 1) \<and>
           (\<forall>i<k - 1. attempt_fails w rq (m_requests s0 + i)) \<and>
           sleeps s' = sleeps s0 @ backoff_from 0 (k - 1)
      else int k = max 0 (max_retries + 1 - 0) \<and>
           (\<forall>i<k. attempt_fails w rq (m_requests s0 + i)) \<and>
           sleeps s' = sleeps s0 @ backoff_from 0 k \<and>
           r = failure_result (if k = 0 then None else Some (error_text w rq (m_requests s0 + k - 1)))"
    by blast
  show ?thesis
  proof (cases "g_success r")
    case True
    with k2 obtain j where j: "k = Suc j" by (cases k) auto
    from True k1 k2 s0 assms(2) show ?thesis
      unfolding j by (intro exI [of _ "Suc j"]) (simp add: bf del: upt_Suc)
  next
    case False
    with k2 assms(2) have "k \<noteq> 0" by auto
    with False k1 k2 s0 assms(2) \<open>gateway_ready w s\<close> show ?thesis
      by (intro exI [of _ k]) (simp add: bf failure_result_def del: upt_Suc)
  qed
qed

theorem generate_structured_retry_policy_witness:
  "(0::int) \<le> 2 \<and> gateway_ready demo_world initial_state \<and>
   attempt_fails demo_world demo_request 0 \<and> attempt_fails demo_world demo_request 1 \<and>
   attempt_fails demo_world demo_request 2 \<and>
   m_requests (snd (generate_structured demo_world demo_request 2 initial_state)) = 3 \<and>
   sleeps (snd (generate_structured demo_world demo_request 2 initial_state)) = [1 / 2, 1, 3 / 2] \<and>
   fst (generate_structured demo_world demo_request 2 initial_state) = failure_result (Some ''boom'') \<and>
   \<not> g_success (fst (generate_structured demo_world demo_request 2 initial_state)) \<and>
   g_error (fst (generate_structured demo_world demo_request 2 initial_state)) = Some ''boom''"
proof -
  define r where "r = fst (generate_structured demo_world demo_request 2 initial_state)"
  define s' where "s' = snd (generate_structured demo_world demo_request 2 initial_state)"
  have run: "generate_structured demo_world demo_request 2 initial_state = (r, s')"
    by (simp add: r_def s'_def)
  have ready: "gateway_ready demo_world initial_state"
    by code_simp
  have nosucc: "\<not> g_success r"
    unfolding r_def by code_simp
  have init: "m_requests initial_state = 0" "sleeps initial_state = []"
    by (simp_all add: initial_state_def)
  have err: "error_text demo_world demo_request 2 = ''boom''"
    by code_simp
  have fails: "attempt_fails demo_world demo_request 0" "attempt_fails demo_world demo_request 1"
    "attempt_fails demo_world demo_request 2"
    by code_simp+
  from generate_structured_retry_policy [OF run] nosucc ready init obtain k where
    k: "m_requests s' = k" "int k = 3"
       "sleeps s' = map (\<lambda>n. of_nat n / 2) [1..<Suc k]"
       "r = failure_result (Some (error_text demo_world demo_request (k - 1)))"
       "g_error r = Some (if error_text demo_world demo_request (k - 1) = [] then ''unknown''
                          else error_text demo_world demo_request (k - 1))"
    by (auto simp del: upt_Suc)
  from k(2) have k3: "k = 3" by simp
  have upt: "map (\<lambda>n. of_nat n / 2) [1..<Suc 3] = [1 / 2, 1, 3 / (2::rat)]" by code_simp
  from k(1) k3 have "m_requests s' = 3" by simp
  moreover from k(3) have "sleeps s' = [1 / 2, 1, 3 / 2]"
    unfolding k3 using upt by simp
  moreover from k(4) err have "r = failure_result (Some ''boom'')"
    unfolding k3 by simp
  moreover from k(5) err have "g_error r = Some ''boom''"
    unfolding k3 by simp
  ultimately have "m_requests s' = 3" "sleeps s' = [1 / 2, 1, 3 / 2]" "r = failure_result (Some ''boom'')"
    "g_error r = Some ''boom''"
    by simp_all
  with ready fails nosucc show ?thesis
    unfolding r_def s'_def by simp
qed

section \<open>The cache expires lazily\<close>

text \<open>
  Claim C8. A read of the cache returns the stored payload exactly when the key has an
  entry and the time elapsed since the entry's timestamp is at most the TTL, and reports
  absence otherwise; the read leaves the cache as it was, so an expired entry stays.
  The TTL is 120 seconds unless the environment sets it. (An entry written at time 0 is
  a hit at 119 seconds and a miss at 121 seconds: the witness.)
\<close>

theorem get_cache_ttl:
  assumes "get_cache w key s = (r, s')"
  shows "cache s' = cache s \<and>
         (r = Some d \<longleftrightarrow>
            (\<exists>ts. cache s key = Some (d, ts) \<and>
                  clock w (ticks s) - ts \<le> of_int (CACHE_TTL_SECONDS w))) \<and>
         (r = None \<longleftrightarrow>
            (cache s key = None \<or>
             (\<exists>d ts. cache s key = Some (d, ts) \<and>
                  clock w (ticks s) - ts > of_int (CACHE_TTL_SECONDS w)))) \<and>
         (ttl_env w = None \<longrightarrow> CACHE_TTL_SECONDS w = 120)"
  using assms
  by (auto simp: get_cache_def time_now_def CACHE_TTL_SECONDS_def Let_def
           split: option.splits prod.splits if_splits)

theorem get_cache_ttl_witness:
  "cache (store_cache cache_demo_world ''k'' cache_demo_payload initial_state) ''k''
     = Some (cache_demo_payload, 0) \<and>
   fst (get_cache cache_demo_world ''k''
          (store_cache cache_demo_world ''k'' cache_demo_payload initial_state))
     = Some cache_demo_payload \<and>
   fst (get_cache cache_demo_world ''k''
          (snd (get_cache cache_demo_world ''k''
             (store_cache cache_demo_world ''k'' cache_demo_payload initial_state))))
     = None \<and>
   cache (snd (get_cache cache_demo_world ''k''
          (snd (get_cache cache_demo_world ''k''
             (store_cache cache_demo_world ''k'' cache_demo_payload initial_state))))) ''k''
     = Some (cache_demo_payload, 0)"
proof -
  define s1 where "s1 = store_cache cache_demo_world ''k'' cache_demo_payload initial_state"
  define s2 where "s2 = snd (get_cache cache_demo_world ''k'' s1)"
  define s3 where "s3 = snd (get_cache cache_demo_world ''k'' s2)"
  have ttl: "CACHE_TTL_SECONDS cache_demo_world = 120"
    by (simp add: CACHE_TTL_SECONDS_def cache_demo_world_def demo_world_def)
  have c1: "cache s1 ''k'' = Some (cache_demo_payload, 0)" and t1: "ticks s1 = 1"
    by (simp_all add: s1_def store_cache_def time_now_def initial_state_def
          cache_demo_world_def demo_world_def)
  have g1: "get_cache cache_demo_world ''k'' s1 = (fst (get_cache cache_demo_world ''k'' s1), s2)"
    by (simp add: s2_def)
  have g2: "get_cache cache_demo_world ''k'' s2 = (fst (get_cache cache_demo_world ''k'' s2), s3)"
    by (simp add: s3_def)
  have t2: "ticks s2 = 2"
    by (simp add: s2_def get_cache_def c1 t1 time_now_def Let_def split: prod.splits)
  have k1: "clock cache_demo_world 1 = 119" and k2: "clock cache_demo_world 2 = 121"
    by (simp_all add: cache_demo_world_def)
  from get_cache_ttl [OF g1, of cache_demo_payload] c1 t1 ttl k1
  have hit: "fst (get_cache cache_demo_world ''k'' s1) = Some cache_demo_payload"
    and c2: "cache s2 = cache s1"
    by simp_all
  from get_cache_ttl [OF g2, of cache_demo_payload] c1 c2 t2 ttl k2
  have miss: "fst (get_cache cache_demo_world ''k'' s2) = None"
    and c3: "cache s3 = cache s2"
    by simp_all
  from c1 c2 c3 hit miss show ?thesis
    unfolding s1_def s2_def s3_def by simp
qed

section \<open>An empty submission needs no model\<close>

text \<open>
  Claim C5. For a text that is empty or holds only white space, \<open>analyze_text\<close> returns
  the terminal result (error percentage 100, no concepts, the two fixed suggestions
  about a clearer image and about lighting) and leaves the state as it was: no request
  is issued and the request counter keeps its value.
\<close>

theorem analyze_empty_submission:
  assumes "list_all py_isspace detected_text"
  shows "analyze_text w detected_text subject s = (Inr empty_submission, s) \<and>
         field ''errorPercentage'' empty_submission = Some (JInt 100) \<and>
         field ''concepts'' empty_submission = Some (JArr []) \<and>
         field ''suggestions'' empty_submission =
           Some (JArr [JStr ''Send a clearer image'', JStr ''Check lighting and focus'']) \<and>
         m_requests (snd (analyze_text w detected_text subject s)) = m_requests s"
  using py_strip_blank [OF assms]
  by (simp add: analyze_text_def empty_submission_def field_def)

theorem analyze_empty_submission_witness:
  "list_all py_isspace blank_text \<and>
   analyze_text demo_world blank_text ''math'' initial_state = (Inr empty_submission, initial_state) \<and>
   analyze_text demo_world [] ''math'' initial_state = (Inr empty_submission, initial_state) \<and>
   m_requests (snd (analyze_text demo_world blank_text ''math'' initial_state)) = 0"
proof -
  have b: "list_all py_isspace blank_text"
    by (simp add: blank_text_def py_isspace_def)
  have e: "list_all py_isspace []"
    by simp
  from analyze_empty_submission [OF b, of demo_world "''math''" initial_state]
       analyze_empty_submission [OF e, of demo_world "''math''" initial_state] b
  show ?thesis
    by (simp add: initial_state_def)
qed

section \<open>The error percentage is clamped\<close>

text \<open>
  Claim C4. After a successful primary generation call, the error percentage of the
  result of \<open>analyze_text\<close> is the model's value converted by \<open>int\<close> and clamped into
  the interval from 0 to 100: a value below 0 gives 0, a value above 100 gives 100, and
  a value that \<open>int\<close> rejects gives 50. The function returns such a result unless the
  model's concepts or suggestions cannot be iterated, in which case it raises
  \<open>TypeError\<close> before it builds a result.
\<close>

theorem analyze_error_percentage_clamped:
  assumes "py_strip detected_text \<noteq> []"
    and "llm_available w s = (True, s1)"
    and "generate_structured w
           (analysis_request (user_prompt detected_text subject) ANALYSIS_SYSTEM) 2 s1 = (result, s2)"
    and "g_success result"
  shows "\<exists>v concepts suggestions.
           py_get (g_data result) ''errorPercentage'' (JInt 50) = Inr v \<and>
           py_get (g_data result) ''concepts'' (JArr []) = Inr concepts \<and>
           py_get (g_data result) ''suggestions'' (JArr []) = Inr suggestions \<and>
           0 \<le> clamp_error_pct v \<and> clamp_error_pct v \<le> 100 \<and>
           clamp_error_pct v =
             (case py_int v of
                Inr i \<Rightarrow> (if i < 0 then 0 else if 100 < i then 100 else i)
              | Inl e \<Rightarrow> 50) \<and>
           (case fst (analyze_text w detected_text subject s) of
              Inr res \<Rightarrow> field ''errorPercentage'' res = Some (JInt (clamp_error_pct v))
            | Inl e \<Rightarrow> e = TypeError \<and>
                (py_iter concepts = Inl TypeError \<or> py_iter suggestions = Inl TypeError))"
proof -
  from generate_structured_success_dict [OF assms(3,4)] obtain kvs where
    kvs: "g_data result = JObj kvs" by blast
  define v where "v = (case map_of kvs ''errorPercentage'' of None \<Rightarrow> JInt 50 | Some x \<Rightarrow> x)"
  define cs where "cs = (case map_of kvs ''concepts'' of None \<Rightarrow> JArr [] | Some x \<Rightarrow> x)"
  define ss where "ss = (case map_of kvs ''suggestions'' of None \<Rightarrow> JArr [] | Some x \<Rightarrow> x)"
  have gets: "py_get (g_data result) ''errorPercentage'' (JInt 50) = Inr v"
    "py_get (g_data result) ''concepts'' (JArr []) = Inr cs"
    "py_get (g_data result) ''suggestions'' (JArr []) = Inr ss"
    by (simp_all add: kvs v_def cs_def ss_def)
  have res: "case fst (analyze_text w detected_text subject s) of
              Inr res \<Rightarrow> field ''errorPercentage'' res = Some (JInt (clamp_error_pct v))
            | Inl e \<Rightarrow> e = TypeError \<and>
                (py_iter cs = Inl TypeError \<or> py_iter ss = Inl TypeError)"
  proof (cases "bounded_strings w 80 8 cs")
    case (Inl e)
    with bounded_strings_cases [OF Inl] assms kvs show ?thesis
      by (simp add: analyze_text_def normalize_primary_def bind_r_def cs_def [symmetric])
  next
    case c: (Inr concepts)
    show ?thesis
    proof (cases "bounded_strings w 120 8 ss")
      case (Inl e)
      with bounded_strings_cases [OF Inl] assms kvs c show ?thesis
        by (simp add: analyze_text_def normalize_primary_def bind_r_def
              cs_def [symmetric] ss_def [symmetric])
    next
      case (Inr suggestions)
      with assms kvs c show ?thesis
        by (simp add: analyze_text_def normalize_primary_def bind_r_def finish_analysis_def
              field_def Let_def cs_def [symmetric] ss_def [symmetric] v_def [symmetric]
              split: prod.splits)
    qed
  qed
  from gets res clamp_error_pct_range [of v] clamp_error_pct_cases [of v] show ?thesis
    by blast
qed

theorem analyze_error_percentage_clamped_witness:
  "py_strip ''2+2=5'' \<noteq> [] \<and>
   fst (llm_available overshoot_world initial_state) \<and>
   g_success (fst (generate_structured overshoot_world
      (analysis_request (user_prompt ''2+2=5'' ''math'') ANALYSIS_SYSTEM) 2
      (snd (llm_available overshoot_world initial_state)))) \<and>
   (case fst (analyze_text overshoot_world ''2+2=5'' ''math'' initial_state) of
      Inr res \<Rightarrow> field ''errorPercentage'' res = Some (JInt 100)
    | Inl e \<Rightarrow> False) \<and>
   clamp_error_pct (JStr ''abc'') = 50 \<and>
   clamp_error_pct (JInt (- 7)) = 0 \<and>
   clamp_error_pct (JFloat (Fin (199 / 2))) = 99"
proof -
  define s1 where "s1 = snd (llm_available overshoot_world initial_state)"
  define rq where "rq = analysis_request (user_prompt ''2+2=5'' ''math'') ANALYSIS_SYSTEM"
  define result where "result = fst (generate_structured overshoot_world rq 2 s1)"
  define s2 where "s2 = snd (generate_structured overshoot_world rq 2 s1)"
  have h1: "py_strip ''2+2=5'' \<noteq> []"
    by code_simp
  have av: "fst (llm_available overshoot_world initial_state)"
    by code_simp
  then have h2: "llm_available overshoot_world initial_state = (True, s1)"
    by (simp add: s1_def prod_eq_iff)
  have h3: "generate_structured overshoot_world
      (analysis_request (user_prompt ''2+2=5'' ''math'') ANALYSIS_SYSTEM) 2 s1 = (result, s2)"
    by (simp add: result_def s2_def rq_def)
  have h4: "g_success result"
    unfolding result_def rq_def s1_def by code_simp
  have d: "g_data result = JObj [(''mainError'', JStr ''sign error''), (''errorPercentage'', JInt 150)]"
    unfolding result_def rq_def s1_def by code_simp
  from analyze_error_percentage_clamped [OF h1 h2 h3 h4] obtain v concepts suggestions where
    v: "py_get (g_data result) ''errorPercentage'' (JInt 50) = Inr v"
      "py_get (g_data result) ''concepts'' (JArr []) = Inr concepts"
      "py_get (g_data result) ''suggestions'' (JArr []) = Inr suggestions"
    and c: "clamp_error_pct v =
             (case py_int v of
                Inr i \<Rightarrow> (if i < 0 then 0 else if 100 < i then 100 else i)
              | Inl e \<Rightarrow> 50)"
    and r: "case fst (analyze_text overshoot_world ''2+2=5'' ''math'' initial_state) of
              Inr res \<Rightarrow> field ''errorPercentage'' res = Some (JInt (clamp_error_pct v))
            | Inl e \<Rightarrow> e = TypeError \<and>
                (py_iter concepts = Inl TypeError \<or> py_iter suggestions = Inl TypeError)"
    by blast
  from v d have "v = JInt 150" "concepts = JArr []" "suggestions = JArr []"
    by simp_all
  with c r have "case fst (analyze_text overshoot_world ''2+2=5'' ''math'' initial_state) of
      Inr res \<Rightarrow> field ''errorPercentage'' res = Some (JInt 100)
    | Inl e \<Rightarrow> False"
    by (simp split: sum.splits)
  moreover have "clamp_error_pct (JStr ''abc'') = 50" "clamp_error_pct (JInt (- 7)) = 0"
    "clamp_error_pct (JFloat (Fin (199 / 2))) = 99"
    by code_simp+
  ultimately show ?thesis
    using h1 av h4 unfolding result_def rq_def s1_def by simp
qed

section \<open>The score derived from the error percentage\<close>

lemma round_half_even_error: "\<bar>of_int (round_half_even y) - y\<bar> \<le> 1 / 2"
proof -
  define f where "f = \<lfloor>y\<rfloor>"
  have a: "of_int f \<le> y" and b: "y < of_int f + 1"
    unfolding f_def by linarith+
  show ?thesis
    unfolding round_half_even_def Let_def f_def [symmetric]
    using a b by (auto simp: abs_if)
qed

lemma pow2_powi: "pow2 e = 2 powi e"
  by (simp add: pow2_def power_int_def power_one_over inverse_eq_divide)

lemma pow2_pos: "0 < pow2 e"
  by (simp add: pow2_powi)

lemma pow2_add: "pow2 (a + b) = pow2 a * pow2 b"
  by (simp add: pow2_powi power_int_add)

lemma pow2_nat: "0 \<le> e \<Longrightarrow> pow2 e = 2 ^ nat e"
  by (simp add: pow2_def)

lemma ilog2_bounds:
  assumes "0 < x"
  shows "pow2 (ilog2 x) \<le> x \<and> x < pow2 (ilog2 x + 1)"
proof -
  obtain a b where ab: "quotient_of x = (a, b)"
    by (cases "quotient_of x")
  then have b: "0 < b" and x: "x = of_int a / of_int b"
    by (simp_all add: quotient_of_denom_pos quotient_of_div)
  with assms have a: "0 < a"
    by (simp add: zero_less_divide_iff)
  define la where "la = bitlen a"
  define lb where "lb = bitlen b"
  have la1: "1 \<le> la" and lb1: "1 \<le> lb"
    using a b by (simp_all add: la_def lb_def bitlen_alt_def)
  from bitlen_bounds [OF a] have "(2::int) ^ nat (la - 1) \<le> a" "a < 2 ^ nat la"
    by (simp_all add: la_def)
  then have "(of_int (2 ^ nat (la - 1)) :: rat) \<le> of_int a" "(of_int a :: rat) < of_int (2 ^ nat la)"
    by (simp_all only: of_int_le_iff of_int_less_iff)
  then have A: "pow2 (la - 1) \<le> of_int a" "of_int a < pow2 la"
    using la1 by (simp_all add: pow2_nat)
  from bitlen_bounds [OF b] have "(2::int) ^ nat (lb - 1) \<le> b" "b < 2 ^ nat lb"
    by (simp_all add: lb_def)
  then have "(of_int (2 ^ nat (lb - 1)) :: rat) \<le> of_int b" "(of_int b :: rat) < of_int (2 ^ nat lb)"
    by (simp_all only: of_int_le_iff of_int_less_iff)
  then have B: "pow2 (lb - 1) \<le> of_int b" "of_int b < pow2 lb"
    using lb1 by (simp_all add: pow2_nat)
  have bpos: "(0::rat) < of_int b" using b by simp
  have lower: "pow2 (la - lb - 1) < x"
  proof -
    have "pow2 (la - lb - 1) * of_int b < pow2 (la - lb - 1) * pow2 lb"
      using B(2) pow2_pos by (simp add: mult_strict_left_mono)
    also have "\<dots> = pow2 (la - 1)"
      by (simp add: pow2_add [symmetric])
    also have "\<dots> \<le> of_int a" by (rule A(1))
    finally show ?thesis
      using bpos by (simp add: x pos_less_divide_eq)
  qed
  have upper: "x < pow2 (la - lb + 1)"
  proof -
    have "of_int a < pow2 la" by (rule A(2))
    also have "\<dots> = pow2 (la - lb + 1) * pow2 (lb - 1)"
      by (simp add: pow2_add [symmetric])
    also have "\<dots> \<le> pow2 (la - lb + 1) * of_int b"
      using B(1) pow2_pos [of "la - lb + 1"] by (simp add: mult_left_mono)
    finally show ?thesis
      using bpos by (simp add: x pos_divide_less_eq)
  qed
  show ?thesis
  proof (cases "pow2 (la - lb) \<le> x")
    case True
    then have "ilog2 x = la - lb"
      by (simp add: ilog2_def ab la_def lb_def Let_def)
    with True upper show ?thesis by simp
  next
    case False
    then have "ilog2 x = la - lb - 1"
      by (simp add: ilog2_def ab la_def lb_def Let_def)
    with False lower show ?thesis by simp
  qed
qed

lemma round_double_error:
  assumes "0 \<le> x"
  shows "\<bar>round_double x - x\<bar> \<le> x / 2 ^ 53"
proof (cases "x = 0")
  case True
  then show ?thesis by (simp add: round_double_def)
next
  case False
  with assms have pos: "0 < x" by simp
  define u where "u = pow2 (ilog2 x - 52)"
  have upos: "0 < u" by (simp add: u_def pow2_pos)
  have rd: "round_double x = of_int (round_half_even (x / u)) * u"
    using pos by (simp add: round_double_def u_def Let_def)
  have "pow2 (ilog2 x) = pow2 (ilog2 x - 52) * pow2 52"
    by (simp add: pow2_add [symmetric])
  then have ux: "u * 2 ^ 52 \<le> x"
    using ilog2_bounds [OF pos] by (simp add: u_def pow2_nat)
  have "\<bar>round_double x - x\<bar> = \<bar>of_int (round_half_even (x / u)) - x / u\<bar> * u"
  proof -
    have "round_double x - x = (of_int (round_half_even (x / u)) - x / u) * u"
      using upos by (simp add: rd left_diff_distrib)
    then show ?thesis
      using upos by (simp add: abs_mult)
  qed
  also have "\<dots> \<le> (1 / 2) * u"
    using round_half_even_error [of "x / u"] upos by (simp add: mult_right_mono)
  also have "\<dots> \<le> x / 2 ^ 53"
    using ux by simp
  finally show ?thesis .
qed

lemma round_double_between:
  assumes "0 \<le> x"
  shows "x * (1 - 1 / 2 ^ 53) \<le> round_double x \<and> round_double x \<le> x * (1 + 1 / 2 ^ 53)"
proof -
  have e: "x * (1 - 1 / 2 ^ 53) = x - x / 2 ^ 53" "x * (1 + 1 / 2 ^ 53) = x + x / 2 ^ 53"
    by (simp_all add: algebra_simps)
  from round_double_error [OF assms]
  have "round_double x - x \<le> x / 2 ^ 53" "- (x / 2 ^ 53) \<le> round_double x - x"
    by (simp_all only: abs_le_iff) linarith+
  then show ?thesis
    unfolding e by linarith
qed

lemma within_ulps_refl: "within_ulps 0 x x"
  by (simp add: within_ulps_def)

lemma within_ulps_nonneg: "0 \<le> x \<Longrightarrow> within_ulps k x y \<Longrightarrow> 0 \<le> y"
proof -
  assume x: "0 \<le> x" and w: "within_ulps k x y"
  have "(0::rat) \<le> (1 - 1 / 2 ^ 53) ^ k" by simp
  with x have "0 \<le> x * (1 - 1 / 2 ^ 53) ^ k" by (rule mult_nonneg_nonneg)
  with w show ?thesis by (simp add: within_ulps_def)
qed

lemma within_ulps_round:
  assumes "0 \<le> x" and "within_ulps k x y"
  shows "within_ulps (Suc k) x (round_double y)"
proof -
  from assms have y: "0 \<le> y" by (rule within_ulps_nonneg)
  from round_double_between [OF y]
  have lo: "y * (1 - 1 / 2 ^ 53) \<le> round_double y" and hi: "round_double y \<le> y * (1 + 1 / 2 ^ 53)"
    by simp_all
  from assms(2) have "x * (1 - 1 / 2 ^ 53) ^ k * (1 - 1 / 2 ^ 53) \<le> y * (1 - 1 / 2 ^ 53)"
    by (intro mult_right_mono) (simp_all add: within_ulps_def)
  with lo have l: "x * (1 - 1 / 2 ^ 53) ^ Suc k \<le> round_double y"
    by (simp add: mult.assoc mult.commute)
  from assms(2) have "y * (1 + 1 / 2 ^ 53) \<le> x * (1 + 1 / 2 ^ 53) ^ k * (1 + 1 / 2 ^ 53)"
    by (intro mult_right_mono) (simp_all add: within_ulps_def)
  with hi have h: "round_double y \<le> x * (1 + 1 / 2 ^ 53) ^ Suc k"
    by (simp add: mult.assoc mult.commute)
  from l h show ?thesis by (simp only: within_ulps_def)
qed

lemma within_ulps_div:
  assumes "within_ulps k x y" and "0 < c"
  shows "within_ulps k (x / c) (y / c)"
  using assms by (simp add: within_ulps_def divide_right_mono)

lemma within_ulps_mult:
  assumes "0 \<le> x" and "0 \<le> x'" and "within_ulps j x y" and "within_ulps k x' y'"
  shows "within_ulps (j + k) (x * x') (y * y')"
proof -
  have y: "0 \<le> y" and y': "0 \<le> y'"
    using assms by (auto intro: within_ulps_nonneg)
  have lo1: "0 \<le> x * (1 - 1 / 2 ^ 53) ^ j" and lo2: "0 \<le> x' * (1 - 1 / 2 ^ 53) ^ k"
    using assms(1,2) by (simp_all add: mult_nonneg_nonneg)
  have "(x * (1 - 1 / 2 ^ 53) ^ j) * (x' * (1 - 1 / 2 ^ 53) ^ k) \<le> y * y'"
    using assms(3,4) lo1 lo2 by (intro mult_mono) (simp_all add: within_ulps_def y)
  then have l: "(x * x') * (1 - 1 / 2 ^ 53) ^ (j + k) \<le> y * y'"
    by (simp add: power_add mult_ac)
  have "y * y' \<le> (x * (1 + 1 / 2 ^ 53) ^ j) * (x' * (1 + 1 / 2 ^ 53) ^ k)"
    using assms(3,4) y y' by (intro mult_mono) (simp_all add: within_ulps_def assms(1) mult_nonneg_nonneg)
  then have h: "y * y' \<le> (x * x') * (1 + 1 / 2 ^ 53) ^ (j + k)"
    by (simp add: power_add mult_ac)
  from l h show ?thesis by (simp only: within_ulps_def)
qed

lemma four_roundings:
  assumes "0 \<le> x" and "within_ulps 4 x y"
  shows "\<bar>y - x\<bar> \<le> x * (5 / 2 ^ 53)"
proof -
  have a: "(1 - 5 / 2 ^ 53 :: rat) \<le> (1 - 1 / 2 ^ 53) ^ 4"
    by (simp add: power4_eq_xxxx)
  have b: "(1 + 1 / 2 ^ 53) ^ 4 \<le> (1 + 5 / 2 ^ 53 :: rat)"
    by (simp add: power4_eq_xxxx)
  from assms(1) a have "x * (1 - 5 / 2 ^ 53) \<le> x * (1 - 1 / 2 ^ 53) ^ 4"
    by (rule mult_left_mono [rotated])
  moreover from assms(1) b have "x * (1 + 1 / 2 ^ 53) ^ 4 \<le> x * (1 + 5 / 2 ^ 53)"
    by (rule mult_left_mono [rotated])
  ultimately have "x * (1 - 5 / 2 ^ 53) \<le> y" "y \<le> x * (1 + 5 / 2 ^ 53)"
    using assms(2) by (simp_all add: within_ulps_def)
  then have "x - x * (5 / 2 ^ 53) \<le> y" "y \<le> x + x * (5 / 2 ^ 53)"
    by (simp_all add: algebra_simps)
  then show ?thesis
    by (simp only: abs_le_iff) linarith
qed

lemma float_score_within:
  assumes "p \<le> 100"
  shows "within_ulps 4 (of_int (100 - p) / 100 * of_nat total_ex) (float_score total_ex p)"
proof -
  from assms have a: "(0::rat) \<le> of_int (100 - p)" by simp
  have "within_ulps 1 (of_int (100 - p)) (round_double (of_int (100 - p)))"
    using within_ulps_round [OF a within_ulps_refl] by simp
  then have "within_ulps 1 (of_int (100 - p) / 100) (round_double (of_int (100 - p)) / 100)"
    by (rule within_ulps_div) simp
  then have q: "within_ulps 2 (of_int (100 - p) / 100)
                  (round_double (round_double (of_int (100 - p)) / 100))"
    using within_ulps_round [of "of_int (100 - p) / 100" 1] a by (simp add: numeral_2_eq_2)
  have t: "within_ulps 1 (of_nat total_ex) (round_double (of_nat total_ex))"
    using within_ulps_round [OF _ within_ulps_refl, of "of_nat total_ex"] by simp
  have "within_ulps (2 + 1) (of_int (100 - p) / 100 * of_nat total_ex)
          (round_double (round_double (of_int (100 - p)) / 100) * round_double (of_nat total_ex))"
    using a by (intro within_ulps_mult q t) simp_all
  then have "within_ulps (Suc 3) (of_int (100 - p) / 100 * of_nat total_ex) (float_score total_ex p)"
    unfolding float_score_def using a
    by (intro within_ulps_round) (simp_all add: numeral_3_eq_3)
  then show ?thesis by (simp add: eval_nat_numeral)
qed

lemma nearest_of_close:
  assumes "\<bar>y - of_int n / 100\<bar> \<le> 1 / 200"
  shows "\<bar>of_int (round_half_even y) - of_int n / 100\<bar> \<le> (1 / 2 :: rat)"
proof -
  define c where "c = round_half_even y"
  define d :: rat where "d = of_int c - of_int n / 100"
  from round_half_even_error [of y] assms
  have d1: "\<bar>d\<bar> \<le> 1 / 2 + 1 / 200"
    unfolding c_def d_def by linarith
  have eq: "(of_int (100 * c - n) :: rat) = 100 * d"
    by (simp add: d_def)
  have "(of_int \<bar>100 * c - n\<bar> :: rat) = \<bar>of_int (100 * c - n)\<bar>"
    by (simp only: of_int_abs)
  also have "\<dots> = \<bar>100 * d\<bar>"
    by (simp only: eq)
  also have "\<dots> = 100 * \<bar>d\<bar>"
    by (simp add: abs_mult)
  finally have "(of_int \<bar>100 * c - n\<bar> :: rat) = 100 * \<bar>d\<bar>" .
  with d1 have "(of_int \<bar>100 * c - n\<bar> :: rat) < 51"
    by linarith
  then have "(of_int \<bar>100 * c - n\<bar> :: rat) < of_int 51"
    by simp
  then have "\<bar>100 * c - n\<bar> < 51"
    by (simp only: of_int_less_iff)
  then have "\<bar>100 * c - n\<bar> \<le> 50" by simp
  then have "(of_int \<bar>100 * c - n\<bar> :: rat) \<le> of_int 50"
    by (simp only: of_int_le_iff)
  with \<open>(of_int \<bar>100 * c - n\<bar> :: rat) = 100 * \<bar>d\<bar>\<close> have "100 * \<bar>d\<bar> \<le> 50"
    by simp
  then show ?thesis
    unfolding c_def [symmetric] d_def [symmetric] by simp
qed

lemma score_correct_nearest:
  assumes "0 \<le> p" and "p \<le> 100" and "total_ex \<le> 10 ^ 12"
  shows "\<bar>of_int (score_correct total_ex p) - of_int ((100 - p) * int total_ex) / 100\<bar> \<le> (1 / 2 :: rat)
         \<and> score_correct total_ex p = round_half_even (float_score total_ex p)"
proof -
  define E :: rat where "E = of_int (100 - p) / 100 * of_nat total_ex"
  have E: "E = of_int ((100 - p) * int total_ex) / 100"
    by (simp add: E_def)
  have E0: "0 \<le> E" using assms(2) by (simp add: E_def)
  have "of_int (100 - p) / 100 \<le> (1::rat)" using assms(1) by simp
  then have "E \<le> 1 * of_nat total_ex"
    unfolding E_def by (intro mult_right_mono) simp_all
  also have "\<dots> \<le> 10 ^ 12"
  proof -
    from assms(3) have "(of_nat total_ex :: rat) \<le> of_nat (10 ^ 12)"
      by (simp only: of_nat_le_iff)
    then show ?thesis by simp
  qed
  finally have Eb: "E \<le> 10 ^ 12" .
  have Et: "E \<le> of_nat total_ex"
    using \<open>E \<le> 1 * of_nat total_ex\<close> by simp
  from four_roundings [OF E0 float_score_within [OF assms(2), of total_ex, folded E_def]]
  have "\<bar>float_score total_ex p - E\<bar> \<le> E * (5 / 2 ^ 53)" .
  also have "\<dots> \<le> 10 ^ 12 * (5 / 2 ^ 53)"
    using Eb by (intro mult_right_mono) simp_all
  also have "\<dots> \<le> 1 / 200" by simp
  finally have close: "\<bar>float_score total_ex p - of_int ((100 - p) * int total_ex) / 100\<bar> \<le> 1 / 200"
    by (simp only: E)
  define c where "c = round_half_even (float_score total_ex p)"
  from nearest_of_close [OF close] have near: "\<bar>of_int c - E\<bar> \<le> (1 / 2 :: rat)"
    by (simp only: c_def E)
  from near E0 have "(- 1 :: rat) < of_int c" by linarith
  then have "(of_int (- 1) :: rat) < of_int c" by simp
  then have "- 1 < c" by (simp only: of_int_less_iff)
  then have c0: "0 \<le> c" by simp
  from near Et have "(of_int c :: rat) < of_nat total_ex + 1" by linarith
  then have "(of_int c :: rat) < of_int (int total_ex + 1)" by simp
  then have "c < int total_ex + 1" by (simp only: of_int_less_iff)
  then have ct: "c \<le> int total_ex" by simp
  have "score_correct total_ex p = c"
    using c0 ct by (simp add: score_correct_def c_def float_score_def)
  with near show ?thesis by (simp add: c_def E)
qed

lemma half_distance_int:
  "\<bar>of_int c - of_int n / 100\<bar> \<le> (1 / 2 :: rat) \<longleftrightarrow> \<bar>100 * c - n\<bar> \<le> 50"
proof -
  define d :: rat where "d = of_int c - of_int n / 100"
  have eq: "(of_int (100 * c - n) :: rat) = 100 * d"
    by (simp add: d_def)
  have "(of_int \<bar>100 * c - n\<bar> :: rat) = \<bar>of_int (100 * c - n)\<bar>"
    by (simp only: of_int_abs)
  also have "\<dots> = \<bar>100 * d\<bar>"
    by (simp only: eq)
  also have "\<dots> = 100 * \<bar>d\<bar>"
    by (simp add: abs_mult)
  finally have e: "(of_int \<bar>100 * c - n\<bar> :: rat) = 100 * \<bar>d\<bar>" .
  have "\<bar>100 * c - n\<bar> \<le> 50 \<longleftrightarrow> (of_int \<bar>100 * c - n\<bar> :: rat) \<le> of_int 50"
    by (simp only: of_int_le_iff)
  also have "\<dots> \<longleftrightarrow> \<bar>d\<bar> \<le> 1 / 2"
    unfolding e by (simp add: mult.commute)
  finally show ?thesis by (simp add: d_def)
qed

lemma int_step1:
  fixes c n :: int
  assumes "n mod 100 \<noteq> 50" and "\<bar>100 * c - n\<bar> \<le> 50"
  shows "\<bar>100 * c - n\<bar> \<le> 49"
proof -
  have a: "100 * c - n \<noteq> 50"
  proof
    assume "100 * c - n = 50"
    then have "n = 50 + 100 * (c - 1)" by simp
    then have "n mod 100 = 50 mod 100" by (simp only: mod_mult_self2)
    with assms(1) show False by simp
  qed
  have b: "100 * c - n \<noteq> - 50"
  proof
    assume "100 * c - n = - 50"
    then have "n = 50 + 100 * c" by simp
    then have "n mod 100 = 50 mod 100" by (simp only: mod_mult_self2)
    with assms(1) show False by simp
  qed
  from a b assms(2) show ?thesis by linarith
qed

lemma int_step2:
  fixes c d n :: int
  assumes "\<bar>100 * c - n\<bar> \<le> 49" and "\<bar>100 * d - n\<bar> \<le> 49"
  shows "c = d"
  using assms by linarith

lemma nearest_unique:
  assumes "\<bar>of_int c - of_int n / 100\<bar> \<le> (1 / 2 :: rat)" and "n mod 100 \<noteq> 50"
  shows "c = round_half_even (of_int n / 100)"
proof -
  define d where "d = round_half_even (of_int n / 100)"
  from round_half_even_error [of "of_int n / 100"]
  have "\<bar>of_int d - of_int n / 100\<bar> \<le> (1 / 2 :: rat)"
    by (simp add: d_def)
  then have "\<bar>100 * d - n\<bar> \<le> 50"
    by (simp only: half_distance_int)
  from int_step1 [OF assms(2) this] have d: "\<bar>100 * d - n\<bar> \<le> 49" .
  from assms(1) have "\<bar>100 * c - n\<bar> \<le> 50"
    by (simp only: half_distance_int)
  from int_step1 [OF assms(2) this] have c: "\<bar>100 * c - n\<bar> \<le> 49" .
  from int_step2 [OF c d] show ?thesis
    by (simp only: d_def)
qed

lemma score_correct_range: "0 \<le> score_correct total_ex p \<and> score_correct total_ex p \<le> int total_ex"
  by (simp add: score_correct_def)

lemma score_correct_exact:
  assumes "0 \<le> p" and "p \<le> 100" and "total_ex \<le> 10 ^ 12"
    and "((100 - p) * int total_ex) mod 100 \<noteq> 50"
  shows "score_correct total_ex p = exact_score total_ex p"
proof -
  from score_correct_nearest [OF assms(1-3)]
  have near: "\<bar>of_int (score_correct total_ex p) - of_int ((100 - p) * int total_ex) / 100\<bar>
                \<le> (1 / 2 :: rat)" by blast
  from nearest_unique [OF near assms(4)]
  have eq: "score_correct total_ex p = round_half_even (of_int ((100 - p) * int total_ex) / 100)" .
  from score_correct_range [of total_ex p] eq show ?thesis
    by (simp add: exact_score_def)
qed

text \<open>
  Claim C7, as amended. In a model-backed analysis with detected exercise total
  \<open>total\<close> and normalised error percentage \<open>p\<close>, the score holds
  \<open>correct = max(0, min(total, round(x)))\<close>, where \<open>x\<close> is the double that
  \<open>(100 - p) / 100.0 * total\<close> evaluates to and \<open>round\<close> rounds a half to the even
  integer; \<open>correct\<close> lies between 0 and \<open>total\<close>, and the label is the text
  \<open>correct/total\<close>. For at most \<open>10^12\<close> exercises \<open>correct\<close> is within one half of
  \<open>(100 - p) * total / 100\<close>, and it is the rounded exact value whenever that value is
  not an exact half. (For four exercises and 25 percent the score is 3 and the label
  3/4: the witness.)
\<close>

theorem score_derivation:
  assumes "py_strip detected_text \<noteq> []"
    and "llm_available w s = (True, s1)"
    and "generate_structured w
           (analysis_request (user_prompt detected_text subject) ANALYSIS_SYSTEM) 2 s1 = (result, s2)"
    and "g_success result"
    and "fst (analyze_text w detected_text subject s) = Inr res"
  shows "\<exists>p correct. 
           field ''errorPercentage'' res = Some (JInt p) \<and> 0 \<le> p \<and> p \<le> 100 \<and>
           field ''score'' res = Some (JObj [
             (''correct'', JInt correct),
             (''total'', JInt (int (detect_total_exercises detected_text))),
             (''label'', JStr (show_int correct @ ''/'' @ show_nat (detect_total_exercises detected_text)))]) \<and>
           correct = max 0 (min (int (detect_total_exercises detected_text))
                       (round_half_even (float_score (detect_total_exercises detected_text) p))) \<and>
           0 \<le> correct \<and> correct \<le> int (detect_total_exercises detected_text) \<and>
           (detect_total_exercises detected_text \<le> 10 ^ 12 \<longrightarrow>
              correct = round_half_even (float_score (detect_total_exercises detected_text) p) \<and>
              \<bar>of_int correct
                 - of_int ((100 - p) * int (detect_total_exercises detected_text)) / 100\<bar>
                \<le> (1 / 2 :: rat) \<and>
              (((100 - p) * int (detect_total_exercises detected_text)) mod 100 \<noteq> 50 \<longrightarrow>
                 correct = exact_score (detect_total_exercises detected_text) p))"
proof -
  from generate_structured_success_dict [OF assms(3,4)] obtain kvs where
    kvs: "g_data result = JObj kvs" by blast
  from assms(1-4) assms(5) obtain f where
    f: "normalize_primary w (g_data result) = Inr f"
    by (cases "normalize_primary w (g_data result)")
       (auto simp: analyze_text_def split: prod.splits)
  then have p: "pf_error_pct f = clamp_error_pct (case map_of kvs ''errorPercentage'' of None \<Rightarrow> JInt 50 | Some x \<Rightarrow> x)"
    by (auto simp: normalize_primary_def bind_r_def kvs split: sum.splits)
  from assms f have res: "\<exists>ai. res = finish_analysis w detected_text (g_data result) f ai"
    by (auto simp: analyze_text_def split: prod.splits)
  then obtain ai where ai: "res = finish_analysis w detected_text (g_data result) f ai" by blast
  let ?t = "detect_total_exercises detected_text"
  have "field ''errorPercentage'' res = Some (JInt (pf_error_pct f))"
    by (simp add: ai finish_analysis_def field_def Let_def)
  moreover have "field ''score'' res = Some (JObj [
             (''correct'', JInt (score_correct ?t (pf_error_pct f))),
             (''total'', JInt (int ?t)),
             (''label'', JStr (show_int (score_correct ?t (pf_error_pct f)) @ ''/'' @ show_nat ?t))])"
    by (simp add: ai finish_analysis_def field_def Let_def score_of_def)
  moreover have "score_correct ?t (pf_error_pct f) =
      max 0 (min (int ?t) (round_half_even (float_score ?t (pf_error_pct f))))"
    by (simp add: score_correct_def float_score_def)
  moreover have "0 \<le> pf_error_pct f" "pf_error_pct f \<le> 100"
    using clamp_error_pct_range p by simp_all
  moreover have "?t \<le> 10 ^ 12 \<longrightarrow>
      score_correct ?t (pf_error_pct f) = round_half_even (float_score ?t (pf_error_pct f)) \<and>
      \<bar>of_int (score_correct ?t (pf_error_pct f))
         - of_int ((100 - pf_error_pct f) * int ?t) / 100\<bar> \<le> (1 / 2 :: rat) \<and>
      (((100 - pf_error_pct f) * int ?t) mod 100 \<noteq> 50 \<longrightarrow>
         score_correct ?t (pf_error_pct f) = exact_score ?t (pf_error_pct f))"
    using score_correct_nearest [of "pf_error_pct f" ?t] \<open>0 \<le> pf_error_pct f\<close>
      \<open>pf_error_pct f \<le> 100\<close>
      score_correct_exact [of "pf_error_pct f" ?t] by blast
  ultimately show ?thesis
    using score_correct_range [of ?t "pf_error_pct f"] by blast
qed

theorem score_derivation_witness:
  "py_strip four_exercises \<noteq> [] \<and>
   fst (llm_available quarter_world initial_state) \<and>
   g_success (fst (generate_structured quarter_world
      (analysis_request (user_prompt four_exercises ''math'') ANALYSIS_SYSTEM) 2
      (snd (llm_available quarter_world initial_state)))) \<and>
   detect_total_exercises four_exercises = 4 \<and>
   (case fst (analyze_text quarter_world four_exercises ''math'' initial_state) of
      Inr res \<Rightarrow>
        field ''errorPercentage'' res = Some (JInt 25) \<and>
        field ''score'' res =
          Some (JObj [(''correct'', JInt 3), (''total'', JInt 4), (''label'', JStr ''3/4'')])
    | Inl e \<Rightarrow> False)"
proof -
  define s1 where "s1 = snd (llm_available quarter_world initial_state)"
  define rq where "rq = analysis_request (user_prompt four_exercises ''math'') ANALYSIS_SYSTEM"
  define result where "result = fst (generate_structured quarter_world rq 2 s1)"
  define s2 where "s2 = snd (generate_structured quarter_world rq 2 s1)"
  have h1: "py_strip four_exercises \<noteq> []"
    by code_simp
  have av: "fst (llm_available quarter_world initial_state)"
    by code_simp
  then have h2: "llm_available quarter_world initial_state = (True, s1)"
    by (simp add: s1_def prod_eq_iff)
  have h3: "generate_structured quarter_world
      (analysis_request (user_prompt four_exercises ''math'') ANALYSIS_SYSTEM) 2 s1 = (result, s2)"
    by (simp add: result_def s2_def rq_def)
  have h4: "g_success result"
    unfolding result_def rq_def s1_def by code_simp
  have t: "detect_total_exercises four_exercises = 4"
    by code_simp
  have ep: "case fst (analyze_text quarter_world four_exercises ''math'' initial_state) of
      Inr res \<Rightarrow> field ''errorPercentage'' res = Some (JInt 25) | Inl e \<Rightarrow> False"
    by code_simp
  have fs: "max 0 (min 4 (round_half_even (float_score 4 25))) = 3"
    by code_simp
  have lbl: "show_int 3 @ ''/'' @ show_nat 4 = ''3/4''"
    by code_simp
  show ?thesis
  proof (cases "fst (analyze_text quarter_world four_exercises ''math'' initial_state)")
    case (Inl e)
    with ep show ?thesis by simp
  next
    case (Inr res)
    from score_derivation [OF h1 h2 h3 h4 Inr] obtain p correct where
      pc: "field ''errorPercentage'' res = Some (JInt p)"
        "field ''score'' res = Some (JObj [
             (''correct'', JInt correct),
             (''total'', JInt (int (detect_total_exercises four_exercises))),
             (''label'', JStr (show_int correct @ ''/'' @ show_nat (detect_total_exercises four_exercises)))])"
        "correct = max 0 (min (int (detect_total_exercises four_exercises))
                       (round_half_even (float_score (detect_total_exercises four_exercises) p)))"
      by blast
    from ep Inr pc(1) have p: "p = 25" by simp
    from pc(3) have c: "correct = 3" unfolding p t using fs by simp
    from pc(1,2) have "field ''errorPercentage'' res = Some (JInt 25) \<and>
        field ''score'' res =
          Some (JObj [(''correct'', JInt 3), (''total'', JInt 4), (''label'', JStr ''3/4'')])"
      unfolding p c t using lbl by simp
    with Inr h1 av h4 t show ?thesis
      unfolding result_def rq_def s1_def by simp
  qed
qed

text \<open>
  Claim C7 as stated fails where \<open>(100 - p) * total / 100\<close> is an exact half: with 45
  exercises and 30 percent the exact value is 31.5, which rounds to 32 (a half to the
  even integer, and a half upwards alike); the quotient \<open>70 / 100.0\<close> is a double just
  below 0.7, the product a double below 31.5, and the code's score is 31.
\<close>

theorem score_formula_counterexample:
  "score_of 45 30 =
     JObj [(''correct'', JInt 31), (''total'', JInt 45), (''label'', JStr ''31/45'')] \<and>
   score_correct 45 30 = 31 \<and>
   float_score 45 30 < 63 / 2 \<and>
   (of_int ((100 - 30) * 45) / 100 :: rat) = 63 / 2 \<and>
   exact_score 45 30 = 32 \<and>
   \<lfloor>(63 / 2 :: rat) + 1 / 2\<rfloor> = 32"
proof -
  have a: "score_of 45 30 =
     JObj [(''correct'', JInt 31), (''total'', JInt 45), (''label'', JStr ''31/45'')]"
    by code_simp
  have b: "score_correct 45 30 = 31"
    by code_simp
  have c: "float_score 45 30 < 63 / 2"
    by code_simp
  have d: "(of_int ((100 - 30) * 45) / 100 :: rat) = 63 / 2"
    by simp
  have e: "exact_score 45 30 = 32"
    by code_simp
  have f: "\<lfloor>(63 / 2 :: rat) + 1 / 2\<rfloor> = 32"
    by simp
  from a b c d e f show ?thesis
    by (intro conjI)
qed

section \<open>Every record falls into the group of its tier\<close>




end
